theory Spec2Isabelle
  imports Main
begin

section \<open>MicMon: the "Listen to this device" switch of a recording device\<close>

text \<open>
  The program (\<open>MicMon.py\<close>) resolves a device name among the active audio endpoints,
  opens the property store of that device, reads the "listen" check box, writes the
  check box and the playback route, and commits. Everything it does to the machine goes
  through calls of the Core Audio interfaces; the model keeps the machine as an explicit
  state that each function takes and returns, and every exception as a value.
\<close>

subsection \<open>Exceptions and formatted text\<close>

text \<open>
  An f-string is kept as its parts: literal text, the \<open>repr\<close> of a string (\<open>{name!r}\<close>)
  and the text of a COM error. \<open>str\<close> of a \<open>ValueError\<close> or \<open>RuntimeError\<close> is its message.
\<close>

datatype fpart = Lit string | Repr string | ComText int

type_synonym fstring = "fpart list"

text \<open>
  The exceptions that reach the caller: the two classes the program raises itself, and
  the error of a failing COM call with its HRESULT.
\<close>

datatype exn = ValueError fstring | RuntimeError fstring | COMError int

fun str_exn :: "exn \<Rightarrow> fstring" where
  "str_exn (ValueError m) = m"
| "str_exn (RuntimeError m) = m"
| "str_exn (COMError h) = [ComText h]"

text \<open>Python's \<open>sub in s\<close> on strings.\<close>

fun str_contains :: "string \<Rightarrow> string \<Rightarrow> bool" where
  "str_contains sub [] = (sub = [])"
| "str_contains sub (c # cs) = (take (length sub) (c # cs) = sub \<or> str_contains sub cs)"

subsection \<open>Data of the program and of the audio interfaces\<close>

text \<open>Constants of the program (lines 49 to 51).\<close>

definition LISTEN_SETTING_GUID :: string where
  "LISTEN_SETTING_GUID = ''{24DBB0FC-9311-4B3D-9CF0-18FF155639D4}''"

definition CHECKBOX_PID :: nat where
  "CHECKBOX_PID = 1"

definition LISTENING_DEVICE_PID :: nat where
  "LISTENING_DEVICE_PID = 0"

text \<open>The dataclass \<open>DeviceInfo\<close>; the field \<open>id\<close> is written \<open>id'\<close>.\<close>

record DeviceInfo =
  id' :: string
  friendly_name :: string
  direction :: string

text \<open>
  What \<open>CreateDevice\<close> hands back for an endpoint: the identifier, the friendly name and
  the text \<open>str(device)\<close>, which the program inspects to drop ghost devices.
\<close>

record AudioDevice =
  device_id :: string
  FriendlyName :: string
  device_str :: string

datatype EDataFlow = eRender | eCapture

record PROPERTYKEY =
  fmtid :: string
  pid :: nat

text \<open>
  A \<open>PROPVARIANT\<close>: the type tag and the two members of the union the program touches.
  \<open>boolVal\<close> is the truth value \<open>bool(v.union.boolVal)\<close>.
\<close>

datatype VARTYPE = VT_EMPTY | VT_BOOL | VT_LPWSTR

record PROPVARIANT =
  vt :: VARTYPE
  boolVal :: bool
  pwszVal :: "string option"

text \<open>The constructor call \<open>PROPVARIANT(vt)\<close>: the tag set, the union zeroed.\<close>

definition new_PROPVARIANT :: "VARTYPE \<Rightarrow> PROPVARIANT" where
  "new_PROPVARIANT t = \<lparr>vt = t, boolVal = False, pwszVal = None\<rparr>"

text \<open>
  The outcome of a COM call that hands back an object: it raises with an HRESULT, it
  returns \<open>None\<close>, or it returns the object.
\<close>

datatype 'a com = Raises int | Null | Ok 'a

text \<open>
  The property store of one device. \<open>props\<close> holds the values that are set. A read of a
  key that has no value is answered as \<open>absent_read\<close> says, which is the store's choice
  and not the program's: \<open>Inl h\<close> when the store raises, \<open>Inr v\<close> when it returns a value
  \<open>v\<close> (an empty one) for the missing property. \<open>get_fault\<close>, \<open>set_fault\<close> and
  \<open>commit_fault\<close> are the I/O faults of the three calls.
\<close>

record property_store =
  props :: "PROPERTYKEY \<Rightarrow> PROPVARIANT option"
  absent_read :: "int + PROPVARIANT"
  get_fault :: "PROPERTYKEY \<Rightarrow> int option"
  set_fault :: "PROPERTYKEY \<Rightarrow> int option"
  commit_fault :: "int option"

text \<open>The calls made to the audio subsystem, in the order they were made.\<close>

datatype os_call =
    Call_CoCreateInstance
  | Call_EnumAudioEndpoints EDataFlow
  | Call_GetDeviceEnumerator
  | Call_GetDevice string
  | Call_OpenPropertyStore string
  | Call_GetValue string PROPERTYKEY
  | Call_SetValue string PROPERTYKEY PROPVARIANT
  | Call_Commit string

text \<open>
  The machine: what each enumeration call answers, the property store of each device
  identifier, the calls made so far and the lines printed so far. A collection is the
  list of its items; an item is \<open>None\<close> where \<open>collection.Item(i)\<close> is.
\<close>

record world =
  CoCreateInstance_result :: "unit com"
  EnumAudioEndpoints_result :: "EDataFlow \<Rightarrow> AudioDevice option list com"
  GetDeviceEnumerator_fault :: "int option"
  GetDevice_result :: "string \<Rightarrow> unit com"
  OpenPropertyStore_fault :: "string \<Rightarrow> int option"
  store_of :: "string \<Rightarrow> property_store"
  calls :: "os_call list"
  stdout :: "fstring list"

definition called :: "os_call \<Rightarrow> world \<Rightarrow> world" where
  "called c w = w\<lparr>calls := calls w @ [c]\<rparr>"

definition print :: "fstring \<Rightarrow> world \<Rightarrow> world" where
  "print line w = w\<lparr>stdout := stdout w @ [line]\<rparr>"

subsection \<open>Device enumeration (lines 94 to 145)\<close>

text \<open>
  The body of the loop over the collection, lines 114 to 123. The parameter \<open>direction\<close>
  of the source is written \<open>dir\<close>, the name being taken by the field.
\<close>

fun collect_devices :: "string \<Rightarrow> AudioDevice option list \<Rightarrow> DeviceInfo list" where
  "collect_devices dir [] = []"
| "collect_devices dir (None # rest) = collect_devices dir rest"
| "collect_devices dir (Some device # rest) =
     (if str_contains '': None'' (device_str device) then collect_devices dir rest
      else \<lparr>id' = device_id device, friendly_name = FriendlyName device,
             direction = dir\<rparr> # collect_devices dir rest)"

definition get_active_devices :: "string \<Rightarrow> world \<Rightarrow> (exn + DeviceInfo list) \<times> world" where
  "get_active_devices dir w =
     (if dir \<noteq> ''input'' \<and> dir \<noteq> ''output''
      then (Inl (ValueError [Lit (''direction must be 'input' or 'output'' @ [CHR 0x27])]), w)
      else
        let e_dataflow = (if dir = ''output'' then eRender else eCapture);
            w1 = called Call_CoCreateInstance w
        in (case CoCreateInstance_result w1 of
              Raises h \<Rightarrow> (Inl (COMError h), w1)
            | Null \<Rightarrow> (Inl (RuntimeError [Lit ''Couldn't create IMMDeviceEnumerator'']), w1)
            | Ok device_enumerator \<Rightarrow>
                (let w2 = called (Call_EnumAudioEndpoints e_dataflow) w1
                 in (case EnumAudioEndpoints_result w2 e_dataflow of
                       Raises h \<Rightarrow> (Inl (COMError h), w2)
                     | Null \<Rightarrow>
                         (Inl (RuntimeError [Lit ''Couldn't enumerate audio endpoints'']), w2)
                     | Ok collection \<Rightarrow> (Inr (collect_devices dir collection), w2)))))"

text \<open>The loop of \<open>find_device_guid_by_name\<close> over the concatenated lists.\<close>

fun find_loop :: "string \<Rightarrow> DeviceInfo list \<Rightarrow> exn + string" where
  "find_loop name [] = Inl (ValueError [Lit ''Audio device not found: '', Repr name])"
| "find_loop name (dev # rest) =
     (if friendly_name dev = name then Inr (id' dev) else find_loop name rest)"

definition find_device_guid_by_name :: "string \<Rightarrow> world \<Rightarrow> (exn + string) \<times> world" where
  "find_device_guid_by_name name w =
     (case get_active_devices ''input'' w of
        (Inl e, w1) \<Rightarrow> (Inl e, w1)
      | (Inr inputs, w1) \<Rightarrow>
          (case get_active_devices ''output'' w1 of
             (Inl e, w2) \<Rightarrow> (Inl e, w2)
           | (Inr outputs, w2) \<Rightarrow> (find_loop name (inputs @ outputs), w2)))"

text \<open>
  \<open>print_devices\<close> (lines 229 to 243) lists the two enumerations; the model returns the
  two lists it prints the names of.
\<close>

definition list_devices :: "world \<Rightarrow> (exn + DeviceInfo list \<times> DeviceInfo list) \<times> world" where
  "list_devices w =
     (case get_active_devices ''input'' w of
        (Inl e, w1) \<Rightarrow> (Inl e, w1)
      | (Inr inputs, w1) \<Rightarrow>
          (case get_active_devices ''output'' w1 of
             (Inl e, w2) \<Rightarrow> (Inl e, w2)
           | (Inr outputs, w2) \<Rightarrow> (Inr (inputs, outputs), w2)))"

subsection \<open>The property store (lines 152 to 197)\<close>

text \<open>
  A store object is known by the identifier of its device: the calls on it act on the
  store the machine keeps for that identifier.
\<close>

definition open_property_store_for_device :: "string \<Rightarrow> world \<Rightarrow> (exn + string) \<times> world" where
  "open_property_store_for_device device_name w =
     (case find_device_guid_by_name device_name w of
        (Inl e, w1) \<Rightarrow> (Inl e, w1)
      | (Inr device_guid, w1) \<Rightarrow>
          (let w2 = called Call_GetDeviceEnumerator w1
           in (case GetDeviceEnumerator_fault w2 of
                 Some h \<Rightarrow> (Inl (COMError h), w2)
               | None \<Rightarrow>
                   (let w3 = called (Call_GetDevice device_guid) w2
                    in (case GetDevice_result w3 device_guid of
                          Raises h \<Rightarrow> (Inl (COMError h), w3)
                        | Null \<Rightarrow>
                            (Inl (RuntimeError [Lit ''Failed to open device for GUID '',
                                                Lit device_guid]), w3)
                        | Ok device \<Rightarrow>
                            (let w4 = called (Call_OpenPropertyStore device_guid) w3
                             in (case OpenPropertyStore_fault w4 device_guid of
                                   Some h \<Rightarrow> (Inl (COMError h), w4)
                                 | None \<Rightarrow> (Inr device_guid, w4))))))))"

definition listen_checkbox_property_key :: PROPERTYKEY where
  "listen_checkbox_property_key = \<lparr>fmtid = LISTEN_SETTING_GUID, pid = CHECKBOX_PID\<rparr>"

definition listen_playback_property_key :: PROPERTYKEY where
  "listen_playback_property_key = \<lparr>fmtid = LISTEN_SETTING_GUID, pid = LISTENING_DEVICE_PID\<rparr>"

text \<open>The three calls on a store object.\<close>

definition GetValue :: "string \<Rightarrow> PROPERTYKEY \<Rightarrow> world \<Rightarrow> (exn + PROPVARIANT) \<times> world" where
  "GetValue store key w =
     (let w1 = called (Call_GetValue store key) w
      in case get_fault (store_of w1 store) key of
           Some h \<Rightarrow> (Inl (COMError h), w1)
         | None \<Rightarrow>
             (case props (store_of w1 store) key of
                Some v \<Rightarrow> (Inr v, w1)
              | None \<Rightarrow>
                  (case absent_read (store_of w1 store) of
                     Inl h \<Rightarrow> (Inl (COMError h), w1)
                   | Inr v \<Rightarrow> (Inr v, w1))))"

definition SetValue :: "string \<Rightarrow> PROPERTYKEY \<Rightarrow> PROPVARIANT \<Rightarrow> world \<Rightarrow> (exn + unit) \<times> world" where
  "SetValue store key v w =
     (let w1 = called (Call_SetValue store key v) w
      in case set_fault (store_of w1 store) key of
           Some h \<Rightarrow> (Inl (COMError h), w1)
         | None \<Rightarrow>
             (Inr (), w1\<lparr>store_of := (store_of w1)
                (store := (store_of w1 store)\<lparr>props := (props (store_of w1 store))(key \<mapsto> v)\<rparr>)\<rparr>))"

definition Commit :: "string \<Rightarrow> world \<Rightarrow> (exn + unit) \<times> world" where
  "Commit store w =
     (let w1 = called (Call_Commit store) w
      in case commit_fault (store_of w1 store) of
           Some h \<Rightarrow> (Inl (COMError h), w1)
         | None \<Rightarrow> (Inr (), w1))"

definition get_listen_enabled :: "string \<Rightarrow> world \<Rightarrow> bool option \<times> world" where
  "get_listen_enabled property_store w =
     (case GetValue property_store listen_checkbox_property_key w of
        (Inr current, w1) \<Rightarrow> (Some (boolVal current), w1)
      | (Inl e, w1) \<Rightarrow> (None, w1))"

definition set_listen_enabled :: "string \<Rightarrow> bool \<Rightarrow> world \<Rightarrow> (exn + unit) \<times> world" where
  "set_listen_enabled property_store enabled w =
     (let new_value = (new_PROPVARIANT VT_BOOL)\<lparr>boolVal := enabled\<rparr>
      in SetValue property_store listen_checkbox_property_key new_value w)"

definition set_listen_playback_device ::
    "string \<Rightarrow> string option \<Rightarrow> world \<Rightarrow> (exn + unit) \<times> world" where
  "set_listen_playback_device property_store playback_device_name w =
     (case playback_device_name of
        Some name \<Rightarrow>
          (case find_device_guid_by_name name w of
             (Inl e, w1) \<Rightarrow> (Inl e, w1)
           | (Inr listening_device_guid, w1) \<Rightarrow>
               SetValue property_store listen_playback_property_key
                 ((new_PROPVARIANT VT_LPWSTR)\<lparr>pwszVal := Some listening_device_guid\<rparr>) w1)
      | None \<Rightarrow>
          SetValue property_store listen_playback_property_key (new_PROPVARIANT VT_EMPTY) w)"

subsection \<open>Applying the settings (lines 200 to 226)\<close>

text \<open>Line 210 and 212: the value to write.\<close>

definition enabled_to_set :: "bool option \<Rightarrow> bool option \<Rightarrow> bool" where
  "enabled_to_set enabled current =
     (case enabled of
        None \<Rightarrow> (case current of Some c \<Rightarrow> \<not> c | None \<Rightarrow> True)
      | Some e \<Rightarrow> e)"

text \<open>Lines 222 to 226: the two lines printed when \<open>verbose\<close>.\<close>

definition report :: "bool \<Rightarrow> string option \<Rightarrow> world \<Rightarrow> world" where
  "report enabled_val playback_device_name w =
     (let state = (if enabled_val then ''ON'' else ''OFF'');
          target = (case playback_device_name of
                      Some n \<Rightarrow> (if n = [] then ''Default playback device'' else n)
                    | None \<Rightarrow> ''Default playback device'')
      in print [Lit ''[micmon] Playback through this device: '', Lit target]
           (print [Lit ''[micmon] Listen to this device: '', Lit state] w))"

definition apply_listen_settings ::
    "string \<Rightarrow> bool option \<Rightarrow> string option \<Rightarrow> bool \<Rightarrow> world \<Rightarrow> (exn + unit) \<times> world" where
  "apply_listen_settings microphone_name enabled playback_device_name verbose w =
     (case open_property_store_for_device microphone_name w of
        (Inl e, w1) \<Rightarrow> (Inl e, w1)
      | (Inr store, w1) \<Rightarrow>
          (case get_listen_enabled store w1 of
             (current, w2) \<Rightarrow>
               (let target = enabled_to_set enabled current
                in (case set_listen_enabled store target w2 of
                      (Inl e, w3) \<Rightarrow> (Inl e, w3)
                    | (Inr u, w3) \<Rightarrow>
                        (case set_listen_playback_device store playback_device_name w3 of
                           (Inl e, w4) \<Rightarrow> (Inl e, w4)
                         | (Inr u', w4) \<Rightarrow>
                             (case Commit store w4 of
                                (r, w5) \<Rightarrow>
                                  (Inr (),
                                   if verbose then report target playback_device_name w5
                                   else w5)))))))"

text \<open>
  The \<open>try\<close> statement that ends \<open>main\<close> (lines 410 to 426): the call of
  \<open>apply_listen_settings\<close> and the exit code for each outcome. \<open>main\<close> reaches it only past
  the two guards of lines 387 to 396, which \<open>main_toggle_mode\<close> below has.
\<close>

definition main_apply ::
    "bool \<Rightarrow> bool \<Rightarrow> string \<Rightarrow> string option \<Rightarrow> bool \<Rightarrow> world \<Rightarrow> int \<times> world" where
  "main_apply on off microphone playback_device verbose w =
     (let enabled = (if on then Some True else if off then Some False else None)
      in case apply_listen_settings microphone enabled playback_device verbose w of
           (Inr u, w1) \<Rightarrow> (0, w1)
         | (Inl (ValueError m), w1) \<Rightarrow>
             (1, if verbose then print (Lit ''[micmon] error: '' # m) w1 else w1)
         | (Inl exc, w1) \<Rightarrow>
             (2, if verbose then print (Lit ''[micmon] unexpected error: '' # str_exn exc) w1
                 else w1))"





subsection \<open>Notions used to state the properties\<close>

text \<open>A call that writes a property.\<close>

definition is_write :: "os_call \<Rightarrow> bool" where
  "is_write c = (case c of Call_SetValue s k v \<Rightarrow> True | _ \<Rightarrow> False)"

text \<open>Two machines whose enumeration calls answer alike.\<close>

definition same_endpoints :: "world \<Rightarrow> world \<Rightarrow> bool" where
  "same_endpoints w w' =
     (CoCreateInstance_result w' = CoCreateInstance_result w \<and>
      EnumAudioEndpoints_result w' = EnumAudioEndpoints_result w)"

text \<open>
  What no function of the program changes: the answers of the enumeration and open
  calls, and for every store the answer to a read of a missing key and the three faults.
\<close>

definition evolves :: "world \<Rightarrow> world \<Rightarrow> bool" where
  "evolves w w' =
     (CoCreateInstance_result w' = CoCreateInstance_result w \<and>
      EnumAudioEndpoints_result w' = EnumAudioEndpoints_result w \<and>
      GetDeviceEnumerator_fault w' = GetDeviceEnumerator_fault w \<and>
      GetDevice_result w' = GetDevice_result w \<and>
      OpenPropertyStore_fault w' = OpenPropertyStore_fault w \<and>
      (\<forall>g. absent_read (store_of w' g) = absent_read (store_of w g) \<and>
           get_fault (store_of w' g) = get_fault (store_of w g) \<and>
           set_fault (store_of w' g) = set_fault (store_of w g) \<and>
           commit_fault (store_of w' g) = commit_fault (store_of w g)))"

subsection \<open>A machine to run the program on\<close>

text \<open>
  One microphone among the capture endpoints, after an endpoint in teardown and an empty
  item; two render endpoints, the second carrying the microphone's name. No property has
  been set on any store, and a read of a missing property returns an empty value.
\<close>

definition mic_device :: AudioDevice where
  "mic_device = \<lparr>device_id = ''{0.0.1}.mic'', FriendlyName = ''Mic'',
                  device_str = ''AudioDevice: Mic''\<rparr>"

definition ghost_device :: AudioDevice where
  "ghost_device = \<lparr>device_id = ''{0.0.1}.gone'', FriendlyName = ''Mic'',
                    device_str = ''AudioDevice: None''\<rparr>"

definition speaker_device :: AudioDevice where
  "speaker_device = \<lparr>device_id = ''{0.0.0}.spk'', FriendlyName = ''Speakers'',
                      device_str = ''AudioDevice: Speakers''\<rparr>"

definition twin_device :: AudioDevice where
  "twin_device = \<lparr>device_id = ''{0.0.0}.twin'', FriendlyName = ''Mic'',
                   device_str = ''AudioDevice: Mic''\<rparr>"

definition fresh_store :: property_store where
  "fresh_store = \<lparr>props = (\<lambda>k. None), absent_read = Inr (new_PROPVARIANT VT_EMPTY),
                   get_fault = (\<lambda>k. None), set_fault = (\<lambda>k. None), commit_fault = None\<rparr>"

definition demo_world :: world where
  "demo_world =
     \<lparr>CoCreateInstance_result = Ok (),
      EnumAudioEndpoints_result =
        (\<lambda>flow. case flow of
                  eCapture \<Rightarrow> Ok [Some ghost_device, None, Some mic_device]
                | eRender \<Rightarrow> Ok [Some speaker_device, Some twin_device]),
      GetDeviceEnumerator_fault = None,
      GetDevice_result =
        (\<lambda>g. if g = ''{0.0.1}.mic'' \<or> g = ''{0.0.0}.spk'' \<or> g = ''{0.0.0}.twin''
             then Ok () else Null),
      OpenPropertyStore_fault = (\<lambda>g. None),
      store_of = (\<lambda>g. fresh_store),
      calls = [],
      stdout = []\<rparr>"


subsection \<open>Values written, and the route the caller asks for\<close>

text \<open>
  The value \<open>set_listen_enabled\<close> builds for a flag (lines 184 and 185), the value
  \<open>set_listen_playback_device\<close> builds for a resolved route (lines 190 to 195), and the
  outcome of resolving the playback name the caller gave, if any.
\<close>

definition encode_enabled :: "bool \<Rightarrow> PROPVARIANT" where
  "encode_enabled b = (new_PROPVARIANT VT_BOOL)\<lparr>boolVal := b\<rparr>"

definition encode_route :: "string option \<Rightarrow> PROPVARIANT" where
  "encode_route r =
     (case r of
        Some g \<Rightarrow> (new_PROPVARIANT VT_LPWSTR)\<lparr>pwszVal := Some g\<rparr>
      | None \<Rightarrow> new_PROPVARIANT VT_EMPTY)"

definition route_target :: "string option \<Rightarrow> world \<Rightarrow> exn + string option" where
  "route_target p w =
     (case p of
        None \<Rightarrow> Inr None
      | Some n \<Rightarrow>
          (case fst (find_device_guid_by_name n w) of
             Inl e \<Rightarrow> Inl e
           | Inr g \<Rightarrow> Inr (Some g)))"

subsection \<open>Machines with a fault or a stored value\<close>

text \<open>
  The example machine with one thing changed in its stores: the write of the check box
  fails; the write of the route fails; the commit fails; a read of a missing property
  raises; the check box is set; the check box is set but its read fails.
\<close>

definition E_FAIL :: int where
  "E_FAIL = - 2147467259"

definition flag_fault_world :: world where
  "flag_fault_world =
     demo_world\<lparr>store_of := (\<lambda>g. fresh_store\<lparr>set_fault :=
        (\<lambda>k. if k = listen_checkbox_property_key then Some E_FAIL else None)\<rparr>)\<rparr>"

definition route_fault_world :: world where
  "route_fault_world =
     demo_world\<lparr>store_of := (\<lambda>g. fresh_store\<lparr>set_fault :=
        (\<lambda>k. if k = listen_playback_property_key then Some E_FAIL else None)\<rparr>)\<rparr>"

definition commit_fault_world :: world where
  "commit_fault_world =
     demo_world\<lparr>store_of := (\<lambda>g. fresh_store\<lparr>commit_fault := Some E_FAIL\<rparr>)\<rparr>"

definition raising_world :: world where
  "raising_world =
     demo_world\<lparr>store_of := (\<lambda>g. fresh_store\<lparr>absent_read := Inl E_FAIL\<rparr>)\<rparr>"

definition listening_world :: world where
  "listening_world =
     demo_world\<lparr>store_of := (\<lambda>g. fresh_store\<lparr>props :=
        (\<lambda>k. if k = listen_checkbox_property_key
             then Some \<lparr>vt = VT_BOOL, boolVal = True, pwszVal = None\<rparr> else None)\<rparr>)\<rparr>"

definition read_fault_world :: world where
  "read_fault_world =
     demo_world\<lparr>store_of := (\<lambda>g. fresh_store\<lparr>
        props := (\<lambda>k. if k = listen_checkbox_property_key
                      then Some \<lparr>vt = VT_BOOL, boolVal = True, pwszVal = None\<rparr> else None),
        get_fault := (\<lambda>k. if k = listen_checkbox_property_key then Some E_FAIL else None)\<rparr>)\<rparr>"

section \<open>Properties\<close>

subsection \<open>Enumeration and resolution leave the machine as it was\<close>

lemma same_endpoints_refl [simp]: "same_endpoints w w"
  by (simp add: same_endpoints_def)

lemma gad_frame:
  "snd (get_active_devices d w) = w\<lparr>calls := calls (snd (get_active_devices d w))\<rparr>"
  by (simp add: get_active_devices_def called_def Let_def split: com.splits)

lemma gad_writes:
  "filter is_write (calls (snd (get_active_devices d w))) = filter is_write (calls w)"
  by (simp add: get_active_devices_def called_def Let_def is_write_def split: com.splits)

lemma gad_cong:
  "same_endpoints w w' \<Longrightarrow> fst (get_active_devices d w') = fst (get_active_devices d w)"
  by (simp add: get_active_devices_def called_def Let_def same_endpoints_def split: com.splits)

lemma gad_same: "same_endpoints w (snd (get_active_devices d w))"
  by (subst gad_frame) (simp add: same_endpoints_def)

lemma find_frame:
  "snd (find_device_guid_by_name n w) = w\<lparr>calls := calls (snd (find_device_guid_by_name n w))\<rparr>"
proof -
  obtain r1 w1 where g1: "get_active_devices ''input'' w = (r1, w1)" by fastforce
  obtain r2 w2 where g2: "get_active_devices ''output'' w1 = (r2, w2)" by fastforce
  have f1: "w1 = w\<lparr>calls := calls w1\<rparr>" using gad_frame [of "''input''" w] g1 by simp
  have f2: "w2 = w1\<lparr>calls := calls w2\<rparr>" using gad_frame [of "''output''" w1] g2 by simp
  have f3: "w2 = w\<lparr>calls := calls w2\<rparr>" by (subst f2, subst f1) simp
  show ?thesis using g1 g2 f1 f3
    by (auto simp add: find_device_guid_by_name_def split: sum.splits)
qed

lemma find_value:
  "fst (find_device_guid_by_name n w) =
     (case fst (get_active_devices ''input'' w) of
        Inl e \<Rightarrow> Inl e
      | Inr inputs \<Rightarrow>
          (case fst (get_active_devices ''output'' w) of
             Inl e \<Rightarrow> Inl e
           | Inr outputs \<Rightarrow> find_loop n (inputs @ outputs)))"
proof -
  obtain r1 w1 where g1: "get_active_devices ''input'' w = (r1, w1)" by fastforce
  obtain r2 w2 where g2: "get_active_devices ''output'' w1 = (r2, w2)" by fastforce
  have "same_endpoints w w1" using gad_same [of w "''input''"] g1 by simp
  then have "fst (get_active_devices ''output'' w) = r2"
    using gad_cong [of w w1 "''output''"] g2 by simp
  then show ?thesis using g1 g2
    by (simp add: find_device_guid_by_name_def split: sum.splits)
qed

lemma find_writes:
  "filter is_write (calls (snd (find_device_guid_by_name n w))) = filter is_write (calls w)"
proof -
  obtain r1 w1 where g1: "get_active_devices ''input'' w = (r1, w1)" by fastforce
  obtain r2 w2 where g2: "get_active_devices ''output'' w1 = (r2, w2)" by fastforce
  have a: "filter is_write (calls w1) = filter is_write (calls w)"
    using gad_writes [of "''input''" w] g1 by simp
  have b: "filter is_write (calls w2) = filter is_write (calls w1)"
    using gad_writes [of "''output''" w1] g2 by simp
  show ?thesis using g1 g2 a b
    by (auto simp add: find_device_guid_by_name_def split: sum.splits)
qed

lemma find_cong:
  "same_endpoints w w' \<Longrightarrow>
   fst (find_device_guid_by_name n w') = fst (find_device_guid_by_name n w)"
  using gad_cong [of w w' "''input''"] gad_cong [of w w' "''output''"]
  by (simp add: find_value split: sum.splits)

lemma list_value:
  "fst (list_devices w) =
     (case fst (get_active_devices ''input'' w) of
        Inl e \<Rightarrow> Inl e
      | Inr inputs \<Rightarrow>
          (case fst (get_active_devices ''output'' w) of
             Inl e \<Rightarrow> Inl e
           | Inr outputs \<Rightarrow> Inr (inputs, outputs)))"
proof -
  obtain r1 w1 where g1: "get_active_devices ''input'' w = (r1, w1)" by fastforce
  obtain r2 w2 where g2: "get_active_devices ''output'' w1 = (r2, w2)" by fastforce
  have "same_endpoints w w1" using gad_same [of w "''input''"] g1 by simp
  then have "fst (get_active_devices ''output'' w) = r2"
    using gad_cong [of w w1 "''output''"] g2 by simp
  then show ?thesis using g1 g2
    by (simp add: list_devices_def split: sum.splits)
qed

lemma find_loop_first:
  "(\<forall>x \<in> set pre. friendly_name x \<noteq> n) \<Longrightarrow> friendly_name d = n \<Longrightarrow>
   find_loop n (pre @ d # post) = Inr (id' d)"
  by (induction pre) auto

lemma find_loop_none:
  "(\<forall>x \<in> set ds. friendly_name x \<noteq> n) \<Longrightarrow>
   find_loop n ds = Inl (ValueError [Lit ''Audio device not found: '', Repr n])"
  by (induction ds) auto

lemma find_loop_iff:
  "(\<exists>g. find_loop n ds = Inr g) \<longleftrightarrow> n \<in> friendly_name ` set ds"
  by (induction ds) auto


lemma evolves_refl [simp]: "evolves w w"
  by (simp add: evolves_def)

lemma evolves_trans: "evolves a b \<Longrightarrow> evolves b c \<Longrightarrow> evolves a c"
  by (simp add: evolves_def)

lemma evolves_same_endpoints: "evolves w w' \<Longrightarrow> same_endpoints w w'"
  by (simp add: evolves_def same_endpoints_def)

lemma evolves_called [simp]: "evolves w (called c w)"
  by (simp add: evolves_def called_def)

lemma evolves_print [simp]: "evolves w (print l w)"
  by (simp add: evolves_def print_def)

lemma store_of_called [simp]: "store_of (called c w) = store_of w"
  by (simp add: called_def)

lemma store_of_print [simp]: "store_of (print l w) = store_of w"
  by (simp add: print_def)

lemma calls_called [simp]: "calls (called c w) = calls w @ [c]"
  by (simp add: called_def)

lemma calls_print [simp]: "calls (print l w) = calls w"
  by (simp add: print_def)

lemma stdout_called [simp]: "stdout (called c w) = stdout w"
  by (simp add: called_def)

lemma stdout_print [simp]: "stdout (print l w) = stdout w @ [l]"
  by (simp add: print_def)

lemma keys_differ [simp]:
  "listen_checkbox_property_key \<noteq> listen_playback_property_key"
  "listen_playback_property_key \<noteq> listen_checkbox_property_key"
  by (simp_all add: listen_checkbox_property_key_def listen_playback_property_key_def
        CHECKBOX_PID_def LISTENING_DEVICE_PID_def)

text \<open>Resolution touches neither a store nor the output.\<close>

lemma find_evolves: "evolves w (snd (find_device_guid_by_name n w))"
  by (subst find_frame) (simp add: evolves_def)

lemma find_store_of: "store_of (snd (find_device_guid_by_name n w)) = store_of w"
  by (subst find_frame) simp

lemma find_stdout: "stdout (snd (find_device_guid_by_name n w)) = stdout w"
  by (subst find_frame) simp

lemma evolves_called_r [simp]: "evolves w w' \<Longrightarrow> evolves w (called c w')"
  by (simp add: evolves_def called_def)

lemma find_cases:
  obtains r1 w1 where "find_device_guid_by_name n w = (r1, w1)" "evolves w w1"
    "store_of w1 = store_of w" "stdout w1 = stdout w"
    "filter is_write (calls w1) = filter is_write (calls w)"
  using find_evolves [of w n] find_store_of [of n w] find_stdout [of n w] find_writes [of n w]
  by (cases "find_device_guid_by_name n w") auto

lemma open_evolves: "evolves w (snd (open_property_store_for_device n w))"
proof -
  obtain r1 w1 where f: "find_device_guid_by_name n w = (r1, w1)" and e: "evolves w w1"
    by (rule find_cases)
  show ?thesis using f e
    by (cases r1)
       (auto simp add: open_property_store_for_device_def Let_def
             split: option.splits com.splits)
qed

lemma open_store_of: "store_of (snd (open_property_store_for_device n w)) = store_of w"
proof -
  obtain r1 w1 where f: "find_device_guid_by_name n w = (r1, w1)"
    and e: "store_of w1 = store_of w"
    by (rule find_cases)
  show ?thesis using f e
    by (cases r1)
       (auto simp add: open_property_store_for_device_def Let_def
             split: option.splits com.splits)
qed

lemma open_stdout: "stdout (snd (open_property_store_for_device n w)) = stdout w"
proof -
  obtain r1 w1 where f: "find_device_guid_by_name n w = (r1, w1)"
    and e: "stdout w1 = stdout w"
    by (rule find_cases)
  show ?thesis using f e
    by (cases r1)
       (auto simp add: open_property_store_for_device_def Let_def
             split: option.splits com.splits)
qed

lemma open_writes:
  "filter is_write (calls (snd (open_property_store_for_device n w))) =
   filter is_write (calls w)"
proof -
  obtain r1 w1 where f: "find_device_guid_by_name n w = (r1, w1)"
    and e: "filter is_write (calls w1) = filter is_write (calls w)"
    by (rule find_cases)
  show ?thesis using f e
    by (cases r1)
       (auto simp add: open_property_store_for_device_def Let_def is_write_def
             split: option.splits com.splits)
qed

lemma open_Inl:
  "fst (find_device_guid_by_name n w) = Inl e \<Longrightarrow>
   fst (open_property_store_for_device n w) = Inl e"
  by (cases "find_device_guid_by_name n w")
     (simp add: open_property_store_for_device_def)

lemma open_Inr:
  "fst (open_property_store_for_device n w) = Inr s \<Longrightarrow>
   fst (find_device_guid_by_name n w) = Inr s"
  by (cases "find_device_guid_by_name n w")
     (auto simp add: open_property_store_for_device_def Let_def
           split: sum.splits option.splits com.splits)


subsection \<open>The enumerations of the example machine\<close>

lemma demo_inputs:
  "fst (get_active_devices ''input'' demo_world) =
     Inr [\<lparr>id' = ''{0.0.1}.mic'', friendly_name = ''Mic'', direction = ''input''\<rparr>]"
  by (simp add: get_active_devices_def demo_world_def called_def Let_def
        mic_device_def ghost_device_def)

lemma demo_outputs:
  "fst (get_active_devices ''output'' demo_world) =
     Inr [\<lparr>id' = ''{0.0.0}.spk'', friendly_name = ''Speakers'', direction = ''output''\<rparr>,
          \<lparr>id' = ''{0.0.0}.twin'', friendly_name = ''Mic'', direction = ''output''\<rparr>]"
  by (simp add: get_active_devices_def demo_world_def called_def Let_def
        speaker_device_def twin_device_def)

lemma demo_list:
  "fst (list_devices demo_world) =
     Inr ([\<lparr>id' = ''{0.0.1}.mic'', friendly_name = ''Mic'', direction = ''input''\<rparr>],
          [\<lparr>id' = ''{0.0.0}.spk'', friendly_name = ''Speakers'', direction = ''output''\<rparr>,
           \<lparr>id' = ''{0.0.0}.twin'', friendly_name = ''Mic'', direction = ''output''\<rparr>])"
  by (simp add: list_value demo_inputs demo_outputs)

lemmas run_defs =
  apply_listen_settings_def open_property_store_for_device_def
  find_device_guid_by_name_def get_active_devices_def demo_world_def called_def Let_def
  mic_device_def ghost_device_def speaker_device_def twin_device_def
  get_listen_enabled_def GetValue_def set_listen_enabled_def SetValue_def Commit_def
  set_listen_playback_device_def enabled_to_set_def fresh_store_def new_PROPVARIANT_def
  listen_checkbox_property_key_def listen_playback_property_key_def
  report_def print_def main_apply_def

subsection \<open>Calls made by a resolution, and the unresolved name\<close>

lemma gad_Inr_calls:
  "fst (get_active_devices d w) = Inr ds \<Longrightarrow>
   calls (snd (get_active_devices d w)) =
     calls w @ [Call_CoCreateInstance,
                Call_EnumAudioEndpoints (if d = ''output'' then eRender else eCapture)]"
  by (auto simp add: get_active_devices_def Let_def called_def split: if_splits com.splits)

lemma find_calls:
  assumes "fst (list_devices w) = Inr (inputs, outputs)"
  shows "calls (snd (find_device_guid_by_name n w)) =
           calls w @ [Call_CoCreateInstance, Call_EnumAudioEndpoints eCapture,
                      Call_CoCreateInstance, Call_EnumAudioEndpoints eRender]"
proof -
  obtain r1 w1 where g1: "get_active_devices ''input'' w = (r1, w1)" by fastforce
  obtain r2 w2 where g2: "get_active_devices ''output'' w1 = (r2, w2)" by fastforce
  have se: "same_endpoints w w1" using gad_same [of w "''input''"] g1 by simp
  have r1: "r1 = Inr inputs" using assms g1 by (simp add: list_value split: sum.splits)
  have "fst (get_active_devices ''output'' w) = Inr outputs"
    using assms g1 by (simp add: list_value split: sum.splits)
  then have r2: "r2 = Inr outputs" using gad_cong [OF se, of "''output''"] g2 by simp
  have c1: "calls w1 = calls w @ [Call_CoCreateInstance, Call_EnumAudioEndpoints eCapture]"
    using gad_Inr_calls [of "''input''" w inputs] g1 r1 by simp
  have c2: "calls w2 = calls w1 @ [Call_CoCreateInstance, Call_EnumAudioEndpoints eRender]"
    using gad_Inr_calls [of "''output''" w1 outputs] g2 r2 by simp
  show ?thesis using g1 g2 r1 r2 c1 c2 by (simp add: find_device_guid_by_name_def)
qed

lemma find_unlisted:
  assumes "fst (list_devices w) = Inr (inputs, outputs)"
      and "n \<notin> friendly_name ` set inputs \<union> friendly_name ` set outputs"
  shows "fst (find_device_guid_by_name n w) =
           Inl (ValueError [Lit ''Audio device not found: '', Repr n])"
proof -
  have "fst (find_device_guid_by_name n w) = find_loop n (inputs @ outputs)"
    using assms(1) by (simp add: find_value list_value split: sum.splits)
  moreover have "\<forall>x \<in> set (inputs @ outputs). friendly_name x \<noteq> n"
    using assms(2) by auto
  ultimately show ?thesis using find_loop_none [of "inputs @ outputs" n] by simp
qed

lemma open_unlisted_calls:
  assumes "fst (find_device_guid_by_name n w) = Inl e"
  shows "snd (open_property_store_for_device n w) = snd (find_device_guid_by_name n w)"
  using assms
  by (cases "find_device_guid_by_name n w") (simp add: open_property_store_for_device_def)

lemma apply_open_fails:
  assumes "fst (open_property_store_for_device mic w) = Inl e"
  shows "apply_listen_settings mic en p v w = (Inl e, snd (open_property_store_for_device mic w))"
  using assms
  by (cases "open_property_store_for_device mic w") (simp add: apply_listen_settings_def)

text \<open>Reading and writing a store.\<close>

lemma gle_snd:
  "snd (get_listen_enabled s w) = called (Call_GetValue s listen_checkbox_property_key) w"
  by (simp add: get_listen_enabled_def GetValue_def Let_def split: option.splits sum.splits)

lemma gle_cong:
  "store_of w' s = store_of w s \<Longrightarrow>
   fst (get_listen_enabled s w') = fst (get_listen_enabled s w)"
  by (simp add: get_listen_enabled_def GetValue_def Let_def split: option.splits sum.splits)

lemma gle_stored:
  "get_fault (store_of w s) listen_checkbox_property_key = None \<Longrightarrow>
   props (store_of w s) listen_checkbox_property_key = Some x \<Longrightarrow>
   fst (get_listen_enabled s w) = Some (boolVal x)"
  by (simp add: get_listen_enabled_def GetValue_def Let_def)

lemma gle_Some_no_fault:
  "fst (get_listen_enabled s w) = Some b \<Longrightarrow>
   get_fault (store_of w s) listen_checkbox_property_key = None"
  by (auto simp add: get_listen_enabled_def GetValue_def Let_def
           split: option.splits sum.splits)

lemma SetValue_fst:
  "fst (SetValue s k x w) =
     (case set_fault (store_of w s) k of None \<Rightarrow> Inr () | Some h \<Rightarrow> Inl (COMError h))"
  by (simp add: SetValue_def Let_def split: option.splits)

lemma SetValue_props:
  "props (store_of (snd (SetValue s k x w)) s') k' =
     (if set_fault (store_of w s) k = None \<and> s' = s \<and> k' = k then Some x
      else props (store_of w s') k')"
  by (simp add: SetValue_def Let_def split: option.splits)

lemma SetValue_evolves: "evolves w (snd (SetValue s k x w))"
  by (simp add: SetValue_def Let_def evolves_def called_def split: option.splits)

lemma SetValue_calls: "calls (snd (SetValue s k x w)) = calls w @ [Call_SetValue s k x]"
  by (simp add: SetValue_def Let_def split: option.splits)

lemma SetValue_stdout: "stdout (snd (SetValue s k x w)) = stdout w"
  by (simp add: SetValue_def Let_def split: option.splits)

lemma Commit_fields:
  "fst (Commit s w) = (case commit_fault (store_of w s) of None \<Rightarrow> Inr () | Some h \<Rightarrow> Inl (COMError h))"
  "store_of (snd (Commit s w)) = store_of w"
  "calls (snd (Commit s w)) = calls w @ [Call_Commit s]"
  "stdout (snd (Commit s w)) = stdout w"
  "evolves w (snd (Commit s w))"
  by (simp_all add: Commit_def Let_def split: option.splits)

subsection \<open>The steps of applying the settings\<close>

lemma evolves_report [simp]: "evolves w w' \<Longrightarrow> evolves w (report t p w')"
  by (simp add: evolves_def report_def print_def Let_def)

lemma report_fields:
  "store_of (report t p w) = store_of w"
  "calls (report t p w) = calls w"
  "stdout (report t p w) =
     stdout w @ [[Lit ''[micmon] Listen to this device: '', Lit (if t then ''ON'' else ''OFF'')],
                 [Lit ''[micmon] Playback through this device: '',
                  Lit (case p of Some n \<Rightarrow> (if n = [] then ''Default playback device'' else n)
                       | None \<Rightarrow> ''Default playback device'')]]"
  by (simp_all add: report_def Let_def)

text \<open>The two setters.\<close>

lemma sle_fst:
  "fst (set_listen_enabled s b w) =
     (case set_fault (store_of w s) listen_checkbox_property_key of
        None \<Rightarrow> Inr () | Some h \<Rightarrow> Inl (COMError h))"
  by (simp add: set_listen_enabled_def Let_def SetValue_fst)

lemma sle_props:
  "props (store_of (snd (set_listen_enabled s b w)) s') k' =
     (if set_fault (store_of w s) listen_checkbox_property_key = None \<and> s' = s \<and>
         k' = listen_checkbox_property_key
      then Some ((new_PROPVARIANT VT_BOOL)\<lparr>boolVal := b\<rparr>)
      else props (store_of w s') k')"
  by (simp add: set_listen_enabled_def Let_def SetValue_props)

lemma sle_evolves: "evolves w (snd (set_listen_enabled s b w))"
  by (simp add: set_listen_enabled_def Let_def SetValue_evolves)

lemma sle_calls:
  "calls (snd (set_listen_enabled s b w)) =
     calls w @ [Call_SetValue s listen_checkbox_property_key
                  ((new_PROPVARIANT VT_BOOL)\<lparr>boolVal := b\<rparr>)]"
  by (simp add: set_listen_enabled_def Let_def SetValue_calls)

lemma sle_stdout: "stdout (snd (set_listen_enabled s b w)) = stdout w"
  by (simp add: set_listen_enabled_def Let_def SetValue_stdout)

lemma slpd_None:
  "set_listen_playback_device s None w =
     SetValue s listen_playback_property_key (new_PROPVARIANT VT_EMPTY) w"
  by (simp add: set_listen_playback_device_def)

lemma slpd_Some:
  "set_listen_playback_device s (Some n) w =
     (case fst (find_device_guid_by_name n w) of
        Inl e \<Rightarrow> (Inl e, snd (find_device_guid_by_name n w))
      | Inr g \<Rightarrow> SetValue s listen_playback_property_key
                   ((new_PROPVARIANT VT_LPWSTR)\<lparr>pwszVal := Some g\<rparr>)
                   (snd (find_device_guid_by_name n w)))"
  by (cases "find_device_guid_by_name n w")
     (simp add: set_listen_playback_device_def split: sum.splits)

lemma slpd_evolves: "evolves w (snd (set_listen_playback_device s p w))"
proof (cases p)
  case None
  then show ?thesis by (simp add: slpd_None SetValue_evolves)
next
  case (Some n)
  show ?thesis
    using find_evolves [of w n]
          SetValue_evolves [of "snd (find_device_guid_by_name n w)"]
    by (auto simp add: Some slpd_Some split: sum.splits intro: evolves_trans)
qed

lemma slpd_props_checkbox:
  "props (store_of (snd (set_listen_playback_device s p w)) s') listen_checkbox_property_key =
   props (store_of w s') listen_checkbox_property_key"
proof (cases p)
  case None
  then show ?thesis by (simp add: slpd_None SetValue_props)
next
  case (Some n)
  show ?thesis
    by (simp add: Some slpd_Some SetValue_props find_store_of split: sum.splits)
qed

lemma slpd_stdout: "stdout (snd (set_listen_playback_device s p w)) = stdout w"
proof (cases p)
  case None
  then show ?thesis by (simp add: slpd_None SetValue_stdout)
next
  case (Some n)
  show ?thesis
    by (simp add: Some slpd_Some SetValue_stdout find_stdout split: sum.splits)
qed

text \<open>The run of \<open>apply_listen_settings\<close> once the store is open.\<close>

lemma apply_opened:
  assumes "open_property_store_for_device mic w = (Inr store, w1)"
  shows "apply_listen_settings mic en p v w =
     (case set_listen_enabled store (enabled_to_set en (fst (get_listen_enabled store w1)))
             (called (Call_GetValue store listen_checkbox_property_key) w1) of
        (Inl e, w3) \<Rightarrow> (Inl e, w3)
      | (Inr u, w3) \<Rightarrow>
          (case set_listen_playback_device store p w3 of
             (Inl e, w4) \<Rightarrow> (Inl e, w4)
           | (Inr u', w4) \<Rightarrow>
               (Inr (),
                if v then report (enabled_to_set en (fst (get_listen_enabled store w1))) p
                            (snd (Commit store w4))
                else snd (Commit store w4))))"
  by (simp add: apply_listen_settings_def assms Let_def case_prod_beta gle_snd
           split: sum.splits)

lemma route_target_cong:
  "same_endpoints w w' \<Longrightarrow> route_target p w' = route_target p w"
  using find_cong [of w w']
  by (simp add: route_target_def split: option.splits)

lemma slpd_unresolved:
  assumes "route_target p w = Inl e"
  shows "set_listen_playback_device s p w =
           (Inl e, snd (find_device_guid_by_name (the p) w))"
  using assms
  by (cases p) (auto simp add: route_target_def slpd_Some split: sum.splits)

lemma slpd_resolved:
  assumes "route_target p w = Inr r"
  shows "fst (set_listen_playback_device s p w) =
           (case set_fault (store_of w s) listen_playback_property_key of
              None \<Rightarrow> Inr () | Some h \<Rightarrow> Inl (COMError h))"
    and "props (store_of (snd (set_listen_playback_device s p w)) s')
           listen_playback_property_key =
           (if set_fault (store_of w s) listen_playback_property_key = None \<and> s' = s
            then Some (encode_route r)
            else props (store_of w s') listen_playback_property_key)"
    and "filter is_write (calls (snd (set_listen_playback_device s p w))) =
           filter is_write (calls w) @
             [Call_SetValue s listen_playback_property_key (encode_route r)]"
    and "last (calls (snd (set_listen_playback_device s p w))) =
           Call_SetValue s listen_playback_property_key (encode_route r)"
proof -
  show "fst (set_listen_playback_device s p w) =
           (case set_fault (store_of w s) listen_playback_property_key of
              None \<Rightarrow> Inr () | Some h \<Rightarrow> Inl (COMError h))"
    using assms
    by (cases p)
       (auto simp add: route_target_def slpd_None slpd_Some SetValue_fst find_store_of
             split: sum.splits)
  show "props (store_of (snd (set_listen_playback_device s p w)) s')
           listen_playback_property_key =
           (if set_fault (store_of w s) listen_playback_property_key = None \<and> s' = s
            then Some (encode_route r)
            else props (store_of w s') listen_playback_property_key)"
    using assms
    by (cases p)
       (auto simp add: route_target_def slpd_None slpd_Some SetValue_props find_store_of
             encode_route_def split: sum.splits)
  show "filter is_write (calls (snd (set_listen_playback_device s p w))) =
           filter is_write (calls w) @
             [Call_SetValue s listen_playback_property_key (encode_route r)]"
    using assms
    by (cases p)
       (auto simp add: route_target_def slpd_None slpd_Some SetValue_calls find_writes
             encode_route_def is_write_def split: sum.splits)
  show "last (calls (snd (set_listen_playback_device s p w))) =
           Call_SetValue s listen_playback_property_key (encode_route r)"
    using assms
    by (cases p)
       (auto simp add: route_target_def slpd_None slpd_Some SetValue_calls
             encode_route_def split: sum.splits)
qed

lemma open_pair:
  "fst (open_property_store_for_device mic w) = Inr store \<Longrightarrow>
   open_property_store_for_device mic w =
     (Inr store, snd (open_property_store_for_device mic w))"
  by (simp add: prod_eq_iff)

lemma apply_flag_fault:
  assumes "fst (open_property_store_for_device mic w) = Inr store"
      and "set_fault (store_of w store) listen_checkbox_property_key = Some h"
  shows "fst (apply_listen_settings mic en p v w) = Inl (COMError h)"
    and "store_of (snd (apply_listen_settings mic en p v w)) = store_of w"
proof -
  let ?w1 = "snd (open_property_store_for_device mic w)"
  let ?t = "enabled_to_set en (fst (get_listen_enabled store ?w1))"
  let ?w2 = "called (Call_GetValue store listen_checkbox_property_key) ?w1"
  have st: "store_of ?w2 = store_of w" by (simp add: open_store_of)
  have f: "fst (set_listen_enabled store ?t ?w2) = Inl (COMError h)"
    using assms(2) by (simp add: sle_fst open_store_of)
  have a: "apply_listen_settings mic en p v w =
             (Inl (COMError h), snd (set_listen_enabled store ?t ?w2))"
    using f by (simp add: apply_opened [OF open_pair [OF assms(1)]] case_prod_beta)
  show "fst (apply_listen_settings mic en p v w) = Inl (COMError h)" using a by simp
  have "store_of (snd (set_listen_enabled store ?t ?w2)) = store_of w"
    using assms(2)
    by (simp add: set_listen_enabled_def SetValue_def Let_def open_store_of)
  then show "store_of (snd (apply_listen_settings mic en p v w)) = store_of w"
    using a by simp
qed

lemma apply_flag_written:
  fixes en :: "bool option"
  assumes o: "fst (open_property_store_for_device mic w) = Inr store"
      and sf: "set_fault (store_of w store) listen_checkbox_property_key = None"
  defines "t \<equiv> enabled_to_set en (fst (get_listen_enabled store w))"
  defines "w3 \<equiv> snd (set_listen_enabled store t
                  (called (Call_GetValue store listen_checkbox_property_key)
                     (snd (open_property_store_for_device mic w))))"
  shows "apply_listen_settings mic en p v w =
           (case set_listen_playback_device store p w3 of
              (Inl e, w4) \<Rightarrow> (Inl e, w4)
            | (Inr u', w4) \<Rightarrow>
                (Inr (), if v then report t p (snd (Commit store w4))
                         else snd (Commit store w4)))"
    and "props (store_of w3 store) listen_checkbox_property_key = Some (encode_enabled t)"
    and "props (store_of w3 store) listen_playback_property_key =
           props (store_of w store) listen_playback_property_key"
    and "evolves w w3"
    and "stdout w3 = stdout w"
    and "filter is_write (calls w3) =
           filter is_write (calls w) @
             [Call_SetValue store listen_checkbox_property_key (encode_enabled t)]"
proof -
  let ?w1 = "snd (open_property_store_for_device mic w)"
  let ?w2 = "called (Call_GetValue store listen_checkbox_property_key) ?w1"
  have st: "store_of ?w2 = store_of w" by (simp add: open_store_of)
  have t: "enabled_to_set en (fst (get_listen_enabled store ?w1)) = t"
    using gle_cong [of ?w1 store w] by (simp add: t_def open_store_of)
  have f: "fst (set_listen_enabled store t ?w2) = Inr ()"
    using sf by (simp add: sle_fst open_store_of)
  show "apply_listen_settings mic en p v w =
           (case set_listen_playback_device store p w3 of
              (Inl e, w4) \<Rightarrow> (Inl e, w4)
            | (Inr u', w4) \<Rightarrow>
                (Inr (), if v then report t p (snd (Commit store w4))
                         else snd (Commit store w4)))"
    using f by (simp add: apply_opened [OF open_pair [OF o], of en p v, unfolded t]
                   case_prod_beta w3_def split: sum.splits)
  show "props (store_of w3 store) listen_checkbox_property_key = Some (encode_enabled t)"
    using sf by (simp add: w3_def sle_props open_store_of encode_enabled_def)
  show "props (store_of w3 store) listen_playback_property_key =
           props (store_of w store) listen_playback_property_key"
    by (simp add: w3_def sle_props open_store_of)
  have "evolves w ?w2" using open_evolves [of w mic] by simp
  then show "evolves w w3"
    using sle_evolves [of ?w2 store t] by (auto simp add: w3_def intro: evolves_trans)
  show "stdout w3 = stdout w" by (simp add: w3_def sle_stdout open_stdout)
  show "filter is_write (calls w3) =
           filter is_write (calls w) @
             [Call_SetValue store listen_checkbox_property_key (encode_enabled t)]"
    by (simp add: w3_def sle_calls open_writes is_write_def encode_enabled_def)
qed

lemmas world_defs =
  flag_fault_world_def route_fault_world_def commit_fault_world_def raising_world_def
  listening_world_def read_fault_world_def E_FAIL_def CHECKBOX_PID_def LISTENING_DEVICE_PID_def
  route_target_def encode_route_def is_write_def

lemma slpd_writes_ext:
  "\<exists>rest. filter is_write (calls (snd (set_listen_playback_device s p w))) =
          filter is_write (calls w) @ rest"
proof (cases p)
  case None
  then show ?thesis by (simp add: slpd_None SetValue_calls)
next
  case (Some n)
  show ?thesis
    by (cases "fst (find_device_guid_by_name n w)")
       (simp_all add: Some slpd_Some SetValue_calls find_writes)
qed

lemma apply_tail:
  "\<exists>w4. (snd (case set_listen_playback_device store p w3 of
              (Inl e, w4) \<Rightarrow> (Inl e, w4)
            | (Inr u', w4) \<Rightarrow>
                (Inr (), if v then report t p (snd (Commit store w4))
                         else snd (Commit store w4))) = w4 \<or>
         snd (case set_listen_playback_device store p w3 of
              (Inl e, w4) \<Rightarrow> (Inl e, w4)
            | (Inr u', w4) \<Rightarrow>
                (Inr (), if v then report t p (snd (Commit store w4))
                         else snd (Commit store w4))) = snd (Commit store w4) \<or>
         snd (case set_listen_playback_device store p w3 of
              (Inl e, w4) \<Rightarrow> (Inl e, w4)
            | (Inr u', w4) \<Rightarrow>
                (Inr (), if v then report t p (snd (Commit store w4))
                         else snd (Commit store w4))) = report t p (snd (Commit store w4)))
        \<and> w4 = snd (set_listen_playback_device store p w3)"
  by (cases "set_listen_playback_device store p w3") (auto split: sum.splits)

lemma apply_checkbox:
  assumes o: "fst (open_property_store_for_device mic w) = Inr store"
      and sf: "set_fault (store_of w store) listen_checkbox_property_key = None"
  shows "props (store_of (snd (apply_listen_settings mic en p v w)) store)
           listen_checkbox_property_key =
         Some (encode_enabled (enabled_to_set en (fst (get_listen_enabled store w))))"
    and "\<exists>rest. filter is_write (calls (snd (apply_listen_settings mic en p v w))) =
           filter is_write (calls w) @
             Call_SetValue store listen_checkbox_property_key
               (encode_enabled (enabled_to_set en (fst (get_listen_enabled store w)))) # rest"
proof -
  let ?t = "enabled_to_set en (fst (get_listen_enabled store w))"
  let ?w3 = "snd (set_listen_enabled store ?t
                  (called (Call_GetValue store listen_checkbox_property_key)
                     (snd (open_property_store_for_device mic w))))"
  let ?w4 = "snd (set_listen_playback_device store p ?w3)"
  note fw = apply_flag_written [OF o sf, of en]
  have c4: "props (store_of ?w4 store) listen_checkbox_property_key = Some (encode_enabled ?t)"
    using fw(2) by (simp add: slpd_props_checkbox)
  obtain rest where r: "filter is_write (calls ?w4) = filter is_write (calls ?w3) @ rest"
    using slpd_writes_ext [of store p ?w3] by blast
  have k4: "filter is_write (calls ?w4) =
              filter is_write (calls w) @
                Call_SetValue store listen_checkbox_property_key (encode_enabled ?t) # rest"
    using r fw(6) by simp
  have cases3: "snd (apply_listen_settings mic en p v w) = ?w4 \<or>
                snd (apply_listen_settings mic en p v w) = snd (Commit store ?w4) \<or>
                snd (apply_listen_settings mic en p v w) = report ?t p (snd (Commit store ?w4))"
    using apply_tail [where store = store and p = p and v = v and t = "?t" and ?w3.0 = "?w3"]
    by (simp add: fw(1) [of p v])
  show "props (store_of (snd (apply_listen_settings mic en p v w)) store)
           listen_checkbox_property_key = Some (encode_enabled ?t)"
    using cases3 c4 by (auto simp add: Commit_fields report_fields)
  show "\<exists>rest. filter is_write (calls (snd (apply_listen_settings mic en p v w))) =
           filter is_write (calls w) @
             Call_SetValue store listen_checkbox_property_key (encode_enabled ?t) # rest"
    using cases3 k4 by (auto simp add: Commit_fields report_fields is_write_def)
qed

lemma apply_flag_fault_writes:
  assumes "fst (open_property_store_for_device mic w) = Inr store"
      and "set_fault (store_of w store) listen_checkbox_property_key = Some h"
  shows "filter is_write (calls (snd (apply_listen_settings mic en p v w))) =
           filter is_write (calls w) @
             [Call_SetValue store listen_checkbox_property_key
                (encode_enabled (enabled_to_set en (fst (get_listen_enabled store w))))]"
proof -
  let ?w1 = "snd (open_property_store_for_device mic w)"
  let ?t = "enabled_to_set en (fst (get_listen_enabled store ?w1))"
  let ?w2 = "called (Call_GetValue store listen_checkbox_property_key) ?w1"
  have t: "?t = enabled_to_set en (fst (get_listen_enabled store w))"
    using gle_cong [of ?w1 store w] by (simp add: open_store_of)
  have f: "fst (set_listen_enabled store ?t ?w2) = Inl (COMError h)"
    using assms(2) by (simp add: sle_fst open_store_of)
  have a: "apply_listen_settings mic en p v w =
             (Inl (COMError h), snd (set_listen_enabled store ?t ?w2))"
    using f by (simp add: apply_opened [OF open_pair [OF assms(1)]] case_prod_beta)
  show ?thesis
    unfolding a t [symmetric]
    by (simp add: sle_calls open_writes is_write_def encode_enabled_def)
qed


lemma open_demo:
  "fst (open_property_store_for_device ''Mic'' demo_world) = Inr ''{0.0.1}.mic''"
  "fst (open_property_store_for_device ''Mic'' route_fault_world) = Inr ''{0.0.1}.mic''"
  "fst (open_property_store_for_device ''Mic'' commit_fault_world) = Inr ''{0.0.1}.mic''"
  "fst (open_property_store_for_device ''Mic'' raising_world) = Inr ''{0.0.1}.mic''"
  "fst (open_property_store_for_device ''Mic'' listening_world) = Inr ''{0.0.1}.mic''"
  by (simp_all add: run_defs world_defs)

subsection \<open>A whole run, and a run that succeeds\<close>

lemma apply_evolves: "evolves w (snd (apply_listen_settings mic en p v w))"
proof (cases "fst (open_property_store_for_device mic w)")
  case (Inl e)
  show ?thesis
    using apply_open_fails [OF Inl, of en p v] open_evolves [of w mic] by simp
next
  case (Inr store)
  let ?w1 = "snd (open_property_store_for_device mic w)"
  let ?t = "enabled_to_set en (fst (get_listen_enabled store ?w1))"
  let ?w2 = "called (Call_GetValue store listen_checkbox_property_key) ?w1"
  let ?w3 = "snd (set_listen_enabled store ?t ?w2)"
  let ?w4 = "snd (set_listen_playback_device store p ?w3)"
  let ?w5 = "snd (Commit store ?w4)"
  have e2: "evolves w ?w2" using open_evolves [of w mic] by simp
  have e3: "evolves w ?w3" using e2 sle_evolves [of ?w2 store ?t] by (rule evolves_trans)
  have e4: "evolves w ?w4" using e3 slpd_evolves [of ?w3 store p] by (rule evolves_trans)
  have e5: "evolves w ?w5" using e4 Commit_fields(5) [of ?w4 store] by (rule evolves_trans)
  show ?thesis
    using e3 e4 e5
    by (simp add: apply_opened [OF open_pair [OF Inr]] case_prod_beta split: sum.splits)
qed

lemma apply_Inr_open:
  assumes "fst (apply_listen_settings mic en p v w) = Inr u"
  shows "\<exists>s. fst (open_property_store_for_device mic w) = Inr s"
proof (cases "fst (open_property_store_for_device mic w)")
  case (Inl e)
  then show ?thesis using apply_open_fails [OF Inl, of en p v] assms by simp
next
  case (Inr s)
  then show ?thesis by simp
qed

lemma apply_Inr_flag:
  assumes "fst (apply_listen_settings mic en p v w) = Inr u"
      and "fst (open_property_store_for_device mic w) = Inr store"
  shows "set_fault (store_of w store) listen_checkbox_property_key = None"
proof (cases "set_fault (store_of w store) listen_checkbox_property_key")
  case None
  then show ?thesis .
next
  case (Some h)
  then show ?thesis using apply_flag_fault(1) [OF assms(2) Some, of en p v] assms(1) by simp
qed

lemma boolVal_encode_enabled [simp]: "boolVal (encode_enabled b) = b"
  by (simp add: encode_enabled_def new_PROPVARIANT_def)

lemma toggle_once_runs:
  "fst (apply_listen_settings ''Mic'' None None True listening_world) = Inr ()"
  by (simp add: run_defs world_defs)

lemma toggle_again_runs:
  "fst (apply_listen_settings ''Mic'' None (Some ''Speakers'') False
          (snd (apply_listen_settings ''Mic'' None None True listening_world))) = Inr ()"
  by (simp add: run_defs world_defs)

subsection \<open>The whole program, and a flag write that fails\<close>



lemma apply_flag_fault_last:
  assumes "fst (open_property_store_for_device mic w) = Inr store"
      and "set_fault (store_of w store) listen_checkbox_property_key = Some h"
  shows "last (calls (snd (apply_listen_settings mic en p v w))) =
           Call_SetValue store listen_checkbox_property_key
             (encode_enabled (enabled_to_set en (fst (get_listen_enabled store w))))"
proof -
  let ?w1 = "snd (open_property_store_for_device mic w)"
  let ?t = "enabled_to_set en (fst (get_listen_enabled store ?w1))"
  let ?w2 = "called (Call_GetValue store listen_checkbox_property_key) ?w1"
  have t: "?t = enabled_to_set en (fst (get_listen_enabled store w))"
    using gle_cong [of ?w1 store w] by (simp add: open_store_of)
  have f: "fst (set_listen_enabled store ?t ?w2) = Inl (COMError h)"
    using assms(2) by (simp add: sle_fst open_store_of)
  have a: "apply_listen_settings mic en p v w =
             (Inl (COMError h), snd (set_listen_enabled store ?t ?w2))"
    using f by (simp add: apply_opened [OF open_pair [OF assms(1)]] case_prod_beta)
  show ?thesis
    unfolding a t [symmetric]
    by (simp add: sle_calls encode_enabled_def)
qed

lemma flag_fault_facts:
  "fst (open_property_store_for_device ''Mic'' flag_fault_world) = Inr ''{0.0.1}.mic''"
  "set_fault (store_of flag_fault_world ''{0.0.1}.mic'') listen_checkbox_property_key =
     Some E_FAIL"
  "fst (get_listen_enabled ''{0.0.1}.mic'' flag_fault_world) = Some False"
  by (simp_all add: run_defs world_defs)

lemma flag_fault_list:
  "fst (list_devices flag_fault_world) =
     Inr ([\<lparr>id' = ''{0.0.1}.mic'', friendly_name = ''Mic'', direction = ''input''\<rparr>],
          [\<lparr>id' = ''{0.0.0}.spk'', friendly_name = ''Speakers'', direction = ''output''\<rparr>,
           \<lparr>id' = ''{0.0.0}.twin'', friendly_name = ''Mic'', direction = ''output''\<rparr>])"
proof -
  have s: "same_endpoints demo_world flag_fault_world"
    by (simp add: same_endpoints_def flag_fault_world_def)
  show ?thesis
    using gad_cong [OF s, of "''input''"] gad_cong [OF s, of "''output''"]
    by (simp add: list_value demo_inputs demo_outputs)
qed

section \<open>The claims\<close>

subsection \<open>The endpoint enumerator\<close>

lemma collect_devices_direction:
  "x \<in> set (collect_devices dir c) \<Longrightarrow> direction x = dir"
  by (induction dir c rule: collect_devices.induct) (auto split: if_splits)

text \<open>
  Claim C10. For a direction argument other than the exact strings \<open>input\<close> and
  \<open>output\<close>, \<open>get_active_devices\<close> raises a \<open>ValueError\<close> and the machine is as it
  was: no call has been made to the enumeration subsystem. Whenever it returns a list,
  the argument was one of the two strings and every descriptor of the list carries the
  argument in its \<open>direction\<close> field.
\<close>

theorem get_active_devices_direction:
  "(dir \<noteq> ''input'' \<and> dir \<noteq> ''output'' \<longrightarrow>
      get_active_devices dir w =
        (Inl (ValueError [Lit (''direction must be 'input' or 'output'' @ [CHR 0x27])]), w))
   \<and> (\<forall>ds w'. get_active_devices dir w = (Inr ds, w') \<longrightarrow>
         (dir = ''input'' \<or> dir = ''output'') \<and> (\<forall>x \<in> set ds. direction x = dir))"
  by (auto simp add: get_active_devices_def Let_def collect_devices_direction
           split: com.splits if_splits)

theorem get_active_devices_direction_witness:
  "get_active_devices ''sideways'' demo_world =
     (Inl (ValueError [Lit (''direction must be 'input' or 'output'' @ [CHR 0x27])]), demo_world)
   \<and> fst (get_active_devices ''input'' demo_world) =
       Inr [\<lparr>id' = ''{0.0.1}.mic'', friendly_name = ''Mic'', direction = ''input''\<rparr>]
   \<and> list_all (\<lambda>x. direction x = ''input'')
        [\<lparr>id' = ''{0.0.1}.mic'', friendly_name = ''Mic'', direction = ''input''\<rparr>]"
proof -
  have "get_active_devices ''input'' demo_world =
          (Inr [\<lparr>id' = ''{0.0.1}.mic'', friendly_name = ''Mic'', direction = ''input''\<rparr>],
           snd (get_active_devices ''input'' demo_world))"
    using demo_inputs by (simp add: prod_eq_iff)
  then show ?thesis
    using get_active_devices_direction [of "''sideways''" demo_world]
          get_active_devices_direction [of "''input''" demo_world] demo_inputs
    by simp
qed

subsection \<open>The name resolver\<close>

text \<open>
  Claim C6. Where both enumerations succeed, \<open>find_device_guid_by_name\<close> has enumerated
  the capture endpoints and then the render endpoints, and it returns the identifier of
  the first descriptor, in the input list followed by the output list, whose friendly
  name is equal to the argument: whatever follows that descriptor, another descriptor of
  the same name included, does not matter. Equality is equality of strings, so a name
  that no descriptor carries exactly is not found.
\<close>

theorem find_device_first_match:
  assumes "fst (get_active_devices ''input'' w) = Inr inputs"
      and "fst (get_active_devices ''output'' w) = Inr outputs"
  shows "calls (snd (find_device_guid_by_name name w)) =
           calls w @ [Call_CoCreateInstance, Call_EnumAudioEndpoints eCapture,
                      Call_CoCreateInstance, Call_EnumAudioEndpoints eRender]
         \<and> (inputs @ outputs = pre @ d # post \<and> (\<forall>x \<in> set pre. friendly_name x \<noteq> name) \<and>
            friendly_name d = name \<longrightarrow>
            fst (find_device_guid_by_name name w) = Inr (id' d))
         \<and> ((\<forall>x \<in> set (inputs @ outputs). friendly_name x \<noteq> name) \<longrightarrow>
            fst (find_device_guid_by_name name w) =
              Inl (ValueError [Lit ''Audio device not found: '', Repr name]))"
proof -
  have l: "fst (list_devices w) = Inr (inputs, outputs)"
    using assms by (simp add: list_value)
  show ?thesis
    using assms find_loop_first [of pre name d post] find_loop_none [of "inputs @ outputs" name]
          find_calls [OF l, of name]
    by (simp add: find_value)
qed

theorem find_device_first_match_witness:
  "fst (get_active_devices ''input'' demo_world) =
     Inr [\<lparr>id' = ''{0.0.1}.mic'', friendly_name = ''Mic'', direction = ''input''\<rparr>]
   \<and> fst (get_active_devices ''output'' demo_world) =
     Inr [\<lparr>id' = ''{0.0.0}.spk'', friendly_name = ''Speakers'', direction = ''output''\<rparr>,
          \<lparr>id' = ''{0.0.0}.twin'', friendly_name = ''Mic'', direction = ''output''\<rparr>]
   \<and> fst (find_device_guid_by_name ''Mic'' demo_world) = Inr ''{0.0.1}.mic''
   \<and> fst (find_device_guid_by_name ''Speakers'' demo_world) = Inr ''{0.0.0}.spk''
   \<and> fst (find_device_guid_by_name ''mic'' demo_world) =
       Inl (ValueError [Lit ''Audio device not found: '', Repr ''mic''])"
  using find_device_first_match [OF demo_inputs demo_outputs, where name = "''Mic''"
          and pre = "[]"
          and d = "\<lparr>id' = ''{0.0.1}.mic'', friendly_name = ''Mic'', direction = ''input''\<rparr>"
          and post = "[\<lparr>id' = ''{0.0.0}.spk'', friendly_name = ''Speakers'',
                        direction = ''output''\<rparr>,
                      \<lparr>id' = ''{0.0.0}.twin'', friendly_name = ''Mic'',
                        direction = ''output''\<rparr>]"]
        find_device_first_match [OF demo_inputs demo_outputs, where name = "''Speakers''"
          and pre = "[\<lparr>id' = ''{0.0.1}.mic'', friendly_name = ''Mic'', direction = ''input''\<rparr>]"
          and d = "\<lparr>id' = ''{0.0.0}.spk'', friendly_name = ''Speakers'',
                     direction = ''output''\<rparr>"
          and post = "[\<lparr>id' = ''{0.0.0}.twin'', friendly_name = ''Mic'',
                        direction = ''output''\<rparr>]"]
        find_device_first_match [OF demo_inputs demo_outputs, where name = "''mic''"
          and pre = "[]"
          and d = "\<lparr>id' = ''{0.0.1}.mic'', friendly_name = ''Mic'', direction = ''input''\<rparr>"
          and post = "[]"]
        demo_inputs demo_outputs
  by simp

text \<open>
  Claim C8. Let listing the devices of a machine give the input list and the output
  list. On a machine whose enumeration calls answer alike, resolving a name succeeds if
  and only if the name is the friendly name of a descriptor of one of the two lists.
\<close>

theorem resolve_iff_listed:
  assumes "same_endpoints w w'"
      and "fst (list_devices w) = Inr (inputs, outputs)"
  shows "(\<exists>g. fst (find_device_guid_by_name name w') = Inr g) \<longleftrightarrow>
         name \<in> friendly_name ` set inputs \<union> friendly_name ` set outputs"
proof -
  have "fst (find_device_guid_by_name name w') = find_loop name (inputs @ outputs)"
    using assms find_cong [of w w' name]
    by (simp add: find_value list_value split: sum.splits)
  then show ?thesis
    using find_loop_iff [of name "inputs @ outputs"] by (simp add: image_Un)
qed

theorem resolve_iff_listed_witness:
  "same_endpoints demo_world (called Call_GetDeviceEnumerator demo_world)
   \<and> (\<exists>g. fst (find_device_guid_by_name ''Speakers''
               (called Call_GetDeviceEnumerator demo_world)) = Inr g)
   \<and> \<not> (\<exists>g. fst (find_device_guid_by_name ''Headset''
               (called Call_GetDeviceEnumerator demo_world)) = Inr g)"
proof -
  have s: "same_endpoints demo_world (called Call_GetDeviceEnumerator demo_world)"
    by (simp add: same_endpoints_def called_def)
  show ?thesis
    using s resolve_iff_listed [OF s demo_list, of "''Speakers''"]
          resolve_iff_listed [OF s demo_list, of "''Headset''"]
    by simp
qed

subsection \<open>Applying the settings to a name that is not there\<close>

text \<open>
  Claim C5, as the program has it. Let listing the devices succeed and the microphone
  name be the friendly name of no listed device. Then \<open>apply_listen_settings\<close> fails
  with the \<open>ValueError\<close> that names the given name, whose text says nothing of a
  direction; every property store is as it was, nothing has been printed, and the only
  calls made are the four of the two enumerations: no device was opened, no property
  store was opened, read, written or committed.
\<close>

theorem apply_unknown_input:
  assumes "fst (list_devices w) = Inr (inputs, outputs)"
      and "mic \<notin> friendly_name ` set inputs \<union> friendly_name ` set outputs"
  shows "fst (apply_listen_settings mic en p v w) =
           Inl (ValueError [Lit ''Audio device not found: '', Repr mic])
         \<and> store_of (snd (apply_listen_settings mic en p v w)) = store_of w
         \<and> stdout (snd (apply_listen_settings mic en p v w)) = stdout w
         \<and> calls (snd (apply_listen_settings mic en p v w)) =
             calls w @ [Call_CoCreateInstance, Call_EnumAudioEndpoints eCapture,
                        Call_CoCreateInstance, Call_EnumAudioEndpoints eRender]"
proof -
  have f: "fst (find_device_guid_by_name mic w) =
             Inl (ValueError [Lit ''Audio device not found: '', Repr mic])"
    using assms by (rule find_unlisted)
  have a: "apply_listen_settings mic en p v w =
             (Inl (ValueError [Lit ''Audio device not found: '', Repr mic]),
              snd (find_device_guid_by_name mic w))"
    using apply_open_fails [OF open_Inl [OF f], of en p v] open_unlisted_calls [OF f]
    by simp
  show ?thesis
    using a find_store_of [of mic w] find_stdout [of mic w] find_calls [OF assms(1), of mic]
    by simp
qed

theorem apply_unknown_input_witness:
  "''NonexistentMic'' \<notin> friendly_name `
      set [\<lparr>id' = ''{0.0.1}.mic'', friendly_name = ''Mic'', direction = ''input''\<rparr>] \<union>
    friendly_name `
      set [\<lparr>id' = ''{0.0.0}.spk'', friendly_name = ''Speakers'', direction = ''output''\<rparr>,
           \<lparr>id' = ''{0.0.0}.twin'', friendly_name = ''Mic'', direction = ''output''\<rparr>]
   \<and> fst (apply_listen_settings ''NonexistentMic'' (Some True) None True demo_world) =
       Inl (ValueError [Lit ''Audio device not found: '', Repr ''NonexistentMic''])
   \<and> store_of (snd (apply_listen_settings ''NonexistentMic'' (Some True) None True demo_world))
       = store_of demo_world
   \<and> calls (snd (apply_listen_settings ''NonexistentMic'' (Some True) None True demo_world)) =
       calls demo_world @ [Call_CoCreateInstance, Call_EnumAudioEndpoints eCapture,
                           Call_CoCreateInstance, Call_EnumAudioEndpoints eRender]"
  using apply_unknown_input [OF demo_list, of "''NonexistentMic''" "Some True" None True]
  by simp

text \<open>
  The claim as the specification words it asks for an error that names the input
  direction. The error of an unknown microphone name is the error of the same name given
  as the playback device of a known microphone: it carries the name and nothing else.
\<close>

theorem apply_unknown_input_no_direction:
  "fst (apply_listen_settings ''NonexistentMic'' (Some True) None True demo_world) =
     Inl (ValueError [Lit ''Audio device not found: '', Repr ''NonexistentMic''])
   \<and> fst (apply_listen_settings ''Mic'' (Some True) (Some ''NonexistentMic'') True demo_world) =
     fst (apply_listen_settings ''NonexistentMic'' (Some True) None True demo_world)"
  by (simp add: run_defs)

subsection \<open>An output name that is not there\<close>

text \<open>
  Claim C1, as the program has it. Let the store of the microphone open, and let listing
  the devices succeed with the playback name the friendly name of no listed device. Then
  \<open>apply_listen_settings\<close> fails, and never before it has issued the write of the check
  box: the playback name is resolved inside \<open>set_listen_playback_device\<close> (line 191),
  which runs after \<open>set_listen_enabled\<close> (lines 214 and 215). Where the write of the check
  box succeeds, the run fails with the \<open>ValueError\<close> that names the playback name; the
  check box holds the new value, the route is as it was, and the write of the check box
  is the only write issued. Where the write of the check box fails, the run fails with
  the COM error of that write; no store has changed, and the failed write is the last
  call made, so the playback name has not been resolved at all.
\<close>

theorem apply_unknown_output:
  assumes o: "fst (open_property_store_for_device mic w) = Inr store"
      and l: "fst (list_devices w) = Inr (inputs, outputs)"
      and n: "out \<notin> friendly_name ` set inputs \<union> friendly_name ` set outputs"
  shows "(set_fault (store_of w store) listen_checkbox_property_key = None \<longrightarrow>
           fst (apply_listen_settings mic en (Some out) v w) =
             Inl (ValueError [Lit ''Audio device not found: '', Repr out])
           \<and> props (store_of (snd (apply_listen_settings mic en (Some out) v w)) store)
               listen_checkbox_property_key =
               Some ((new_PROPVARIANT VT_BOOL)
                       \<lparr>boolVal := enabled_to_set en (fst (get_listen_enabled store w))\<rparr>)
           \<and> props (store_of (snd (apply_listen_settings mic en (Some out) v w)) store)
               listen_playback_property_key =
               props (store_of w store) listen_playback_property_key
           \<and> filter is_write (calls (snd (apply_listen_settings mic en (Some out) v w))) =
               filter is_write (calls w) @
                 [Call_SetValue store listen_checkbox_property_key
                    ((new_PROPVARIANT VT_BOOL)
                       \<lparr>boolVal := enabled_to_set en (fst (get_listen_enabled store w))\<rparr>)])
         \<and> (set_fault (store_of w store) listen_checkbox_property_key = Some h \<longrightarrow>
           fst (apply_listen_settings mic en (Some out) v w) = Inl (COMError h)
           \<and> store_of (snd (apply_listen_settings mic en (Some out) v w)) = store_of w
           \<and> filter is_write (calls (snd (apply_listen_settings mic en (Some out) v w))) =
               filter is_write (calls w) @
                 [Call_SetValue store listen_checkbox_property_key
                    ((new_PROPVARIANT VT_BOOL)
                       \<lparr>boolVal := enabled_to_set en (fst (get_listen_enabled store w))\<rparr>)]
           \<and> last (calls (snd (apply_listen_settings mic en (Some out) v w))) =
               Call_SetValue store listen_checkbox_property_key
                 ((new_PROPVARIANT VT_BOOL)
                    \<lparr>boolVal := enabled_to_set en (fst (get_listen_enabled store w))\<rparr>))"
proof (intro conjI impI)
  assume sf: "set_fault (store_of w store) listen_checkbox_property_key = None"
  let ?t = "enabled_to_set en (fst (get_listen_enabled store w))"
  let ?w3 = "snd (set_listen_enabled store ?t
                  (called (Call_GetValue store listen_checkbox_property_key)
                     (snd (open_property_store_for_device mic w))))"
  let ?nf = "ValueError [Lit ''Audio device not found: '', Repr out]"
  note fw = apply_flag_written [OF o sf, of en]
  have "fst (find_device_guid_by_name out w) = Inl ?nf"
    using l n by (rule find_unlisted)
  then have "route_target (Some out) w = Inl ?nf" by (simp add: route_target_def)
  then have "route_target (Some out) ?w3 = Inl ?nf"
    using route_target_cong [OF evolves_same_endpoints [OF fw(4)], of "Some out"] by simp
  then have s: "set_listen_playback_device store (Some out) ?w3 =
                  (Inl ?nf, snd (find_device_guid_by_name out ?w3))"
    using slpd_unresolved [of "Some out" ?w3 ?nf store] by simp
  have a: "apply_listen_settings mic en (Some out) v w =
             (Inl ?nf, snd (find_device_guid_by_name out ?w3))"
    by (simp add: fw(1) [of "Some out" v] s)
  show "fst (apply_listen_settings mic en (Some out) v w) = Inl ?nf" by (simp add: a)
  show "props (store_of (snd (apply_listen_settings mic en (Some out) v w)) store)
          listen_checkbox_property_key =
        Some ((new_PROPVARIANT VT_BOOL)\<lparr>boolVal := ?t\<rparr>)"
    using fw(2) by (simp add: a find_store_of encode_enabled_def)
  show "props (store_of (snd (apply_listen_settings mic en (Some out) v w)) store)
          listen_playback_property_key =
        props (store_of w store) listen_playback_property_key"
    using fw(3) by (simp add: a find_store_of)
  show "filter is_write (calls (snd (apply_listen_settings mic en (Some out) v w))) =
          filter is_write (calls w) @
            [Call_SetValue store listen_checkbox_property_key
               ((new_PROPVARIANT VT_BOOL)\<lparr>boolVal := ?t\<rparr>)]"
    using fw(6) by (simp add: a find_writes encode_enabled_def)
next
  assume sf: "set_fault (store_of w store) listen_checkbox_property_key = Some h"
  show "fst (apply_listen_settings mic en (Some out) v w) = Inl (COMError h)"
    using apply_flag_fault(1) [OF o sf] .
  show "store_of (snd (apply_listen_settings mic en (Some out) v w)) = store_of w"
    using apply_flag_fault(2) [OF o sf] .
  show "filter is_write (calls (snd (apply_listen_settings mic en (Some out) v w))) =
          filter is_write (calls w) @
            [Call_SetValue store listen_checkbox_property_key
               ((new_PROPVARIANT VT_BOOL)
                  \<lparr>boolVal := enabled_to_set en (fst (get_listen_enabled store w))\<rparr>)]"
    using apply_flag_fault_writes [OF o sf, of en "Some out" v]
    by (simp add: encode_enabled_def)
  show "last (calls (snd (apply_listen_settings mic en (Some out) v w))) =
          Call_SetValue store listen_checkbox_property_key
            ((new_PROPVARIANT VT_BOOL)
               \<lparr>boolVal := enabled_to_set en (fst (get_listen_enabled store w))\<rparr>)"
    using apply_flag_fault_last [OF o sf, of en "Some out" v]
    by (simp add: encode_enabled_def)
qed

theorem apply_unknown_output_witness:
  "fst (open_property_store_for_device ''Mic'' demo_world) = Inr ''{0.0.1}.mic''
   \<and> set_fault (store_of demo_world ''{0.0.1}.mic'') listen_checkbox_property_key = None
   \<and> fst (apply_listen_settings ''Mic'' (Some True) (Some ''NonexistentSpeaker'') True
             demo_world) =
       Inl (ValueError [Lit ''Audio device not found: '', Repr ''NonexistentSpeaker''])
   \<and> props (store_of (snd (apply_listen_settings ''Mic'' (Some True)
                              (Some ''NonexistentSpeaker'') True demo_world)) ''{0.0.1}.mic'')
        listen_checkbox_property_key =
       Some \<lparr>vt = VT_BOOL, boolVal = True, pwszVal = None\<rparr>
   \<and> fst (open_property_store_for_device ''Mic'' flag_fault_world) = Inr ''{0.0.1}.mic''
   \<and> set_fault (store_of flag_fault_world ''{0.0.1}.mic'') listen_checkbox_property_key =
       Some E_FAIL
   \<and> fst (apply_listen_settings ''Mic'' (Some True) (Some ''NonexistentSpeaker'') True
             flag_fault_world) = Inl (COMError E_FAIL)
   \<and> store_of (snd (apply_listen_settings ''Mic'' (Some True) (Some ''NonexistentSpeaker'')
                       True flag_fault_world)) = store_of flag_fault_world
   \<and> last (calls (snd (apply_listen_settings ''Mic'' (Some True)
                         (Some ''NonexistentSpeaker'') True flag_fault_world))) =
       Call_SetValue ''{0.0.1}.mic'' listen_checkbox_property_key
         \<lparr>vt = VT_BOOL, boolVal = True, pwszVal = None\<rparr>"
proof -
  have sf: "set_fault (store_of demo_world ''{0.0.1}.mic'') listen_checkbox_property_key = None"
    by (simp add: run_defs)
  have n: "''NonexistentSpeaker'' \<notin>
      friendly_name `
        set [\<lparr>id' = ''{0.0.1}.mic'', friendly_name = ''Mic'', direction = ''input''\<rparr>] \<union>
      friendly_name `
        set [\<lparr>id' = ''{0.0.0}.spk'', friendly_name = ''Speakers'', direction = ''output''\<rparr>,
             \<lparr>id' = ''{0.0.0}.twin'', friendly_name = ''Mic'', direction = ''output''\<rparr>]"
    by simp
  show ?thesis
    using apply_unknown_output [OF open_demo(1) demo_list n, of "Some True" True]
          apply_unknown_output [OF flag_fault_facts(1) flag_fault_list n,
            where h = E_FAIL and en = "Some True" and v = True]
          sf open_demo(1) flag_fault_facts
    by (simp add: enabled_to_set_def new_PROPVARIANT_def)
qed

text \<open>
  The claim as the specification words it has the failure before any write. On the
  example machine the check box of the microphone is unset before the run and holds
  \<open>True\<close> after the run that fails on the playback name.
\<close>

theorem apply_unknown_output_flag_written:
  "fst (apply_listen_settings ''Mic'' (Some True) (Some ''NonexistentSpeaker'') True
          demo_world) =
     Inl (ValueError [Lit ''Audio device not found: '', Repr ''NonexistentSpeaker''])
   \<and> props (store_of demo_world ''{0.0.1}.mic'') listen_checkbox_property_key = None
   \<and> props (store_of (snd (apply_listen_settings ''Mic'' (Some True)
                              (Some ''NonexistentSpeaker'') True demo_world)) ''{0.0.1}.mic'')
        listen_checkbox_property_key =
       Some \<lparr>vt = VT_BOOL, boolVal = True, pwszVal = None\<rparr>
   \<and> filter is_write
        (calls (snd (apply_listen_settings ''Mic'' (Some True)
                       (Some ''NonexistentSpeaker'') True demo_world))) =
       [Call_SetValue ''{0.0.1}.mic'' listen_checkbox_property_key
          \<lparr>vt = VT_BOOL, boolVal = True, pwszVal = None\<rparr>]"
  by (simp add: run_defs world_defs)

subsection \<open>A route write that fails\<close>




subsection \<open>Toggle\<close>

text \<open>
  Claim C3. Let the store of the microphone open and the caller ask for a toggle
  (\<open>enabled\<close> is \<open>None\<close>). The first write the run issues is the write of the check box,
  and the value it carries is \<open>True\<close> when the decoded prior value is null and the
  negation of the prior value otherwise; where that write does not fail, the check box
  holds that value when the run ends.
\<close>

theorem toggle_target:
  assumes o: "fst (open_property_store_for_device mic w) = Inr store"
  shows "(\<exists>rest. filter is_write (calls (snd (apply_listen_settings mic None p v w))) =
            filter is_write (calls w) @
              Call_SetValue store listen_checkbox_property_key
                ((new_PROPVARIANT VT_BOOL)
                   \<lparr>boolVal := (case fst (get_listen_enabled store w) of
                                  None \<Rightarrow> True | Some c \<Rightarrow> \<not> c)\<rparr>) # rest)
         \<and> (set_fault (store_of w store) listen_checkbox_property_key = None \<longrightarrow>
              props (store_of (snd (apply_listen_settings mic None p v w)) store)
                listen_checkbox_property_key =
              Some ((new_PROPVARIANT VT_BOOL)
                      \<lparr>boolVal := (case fst (get_listen_enabled store w) of
                                     None \<Rightarrow> True | Some c \<Rightarrow> \<not> c)\<rparr>))"
proof -
  have t: "enabled_to_set None (fst (get_listen_enabled store w)) =
             (case fst (get_listen_enabled store w) of None \<Rightarrow> True | Some c \<Rightarrow> \<not> c)"
    by (simp add: enabled_to_set_def split: option.splits)
  show ?thesis
  proof (cases "set_fault (store_of w store) listen_checkbox_property_key")
    case None
    show ?thesis
      using apply_checkbox [OF o None, of None p v] None
      by (simp add: t encode_enabled_def)
  next
    case (Some h)
    show ?thesis
      using apply_flag_fault_writes [OF o Some, of None p v] Some
      by (simp add: t encode_enabled_def)
  qed
qed

theorem toggle_target_witness:
  "fst (get_listen_enabled ''{0.0.1}.mic'' raising_world) = None
   \<and> props (store_of (snd (apply_listen_settings ''Mic'' None None True raising_world))
              ''{0.0.1}.mic'') listen_checkbox_property_key =
       Some \<lparr>vt = VT_BOOL, boolVal = True, pwszVal = None\<rparr>
   \<and> fst (get_listen_enabled ''{0.0.1}.mic'' listening_world) = Some True
   \<and> props (store_of (snd (apply_listen_settings ''Mic'' None None True listening_world))
              ''{0.0.1}.mic'') listen_checkbox_property_key =
       Some \<lparr>vt = VT_BOOL, boolVal = False, pwszVal = None\<rparr>"
proof -
  have g1: "fst (get_listen_enabled ''{0.0.1}.mic'' raising_world) = None"
    by (simp add: run_defs world_defs)
  have g2: "fst (get_listen_enabled ''{0.0.1}.mic'' listening_world) = Some True"
    by (simp add: run_defs world_defs)
  have s1: "set_fault (store_of raising_world ''{0.0.1}.mic'')
              listen_checkbox_property_key = None"
    by (simp add: run_defs world_defs)
  have s2: "set_fault (store_of listening_world ''{0.0.1}.mic'')
              listen_checkbox_property_key = None"
    by (simp add: run_defs world_defs)
  show ?thesis
    using toggle_target [OF open_demo(4), of None True]
          toggle_target [OF open_demo(5), of None True] g1 g2 s1 s2
    by (simp add: new_PROPVARIANT_def)
qed

text \<open>
  Claim C4. Let two toggles of the same microphone follow one another, both returning
  normally, with nothing but the program acting on the machine in between, and let the
  check box decode to the value \<open>b\<close> before the first. Then it decodes to the negation
  of \<open>b\<close> after the first and to \<open>b\<close> again after the second: the second run reads
  what the first has written.
\<close>

theorem toggle_twice:
  assumes a1: "apply_listen_settings mic None p1 v1 w = (Inr (), wa)"
      and a2: "apply_listen_settings mic None p2 v2 wa = (Inr (), wb)"
      and o: "fst (open_property_store_for_device mic w) = Inr store"
      and c: "fst (get_listen_enabled store w) = Some b"
  shows "fst (get_listen_enabled store wa) = Some (\<not> b)
         \<and> fst (get_listen_enabled store wb) = Some b"
proof -
  have f1: "fst (apply_listen_settings mic None p1 v1 w) = Inr ()"
    and w1: "snd (apply_listen_settings mic None p1 v1 w) = wa" using a1 by simp_all
  have f2: "fst (apply_listen_settings mic None p2 v2 wa) = Inr ()"
    and w2: "snd (apply_listen_settings mic None p2 v2 wa) = wb" using a2 by simp_all
  have sf1: "set_fault (store_of w store) listen_checkbox_property_key = None"
    using f1 o by (rule apply_Inr_flag)
  have cb1: "props (store_of wa store) listen_checkbox_property_key =
               Some (encode_enabled (\<not> b))"
    using apply_checkbox(1) [OF o sf1, of None p1 v1] w1 c by (simp add: enabled_to_set_def)
  have ev1: "evolves w wa" using apply_evolves [of w mic None p1 v1] w1 by simp
  have gf: "get_fault (store_of w store) listen_checkbox_property_key = None"
    using c by (rule gle_Some_no_fault)
  have gfa: "get_fault (store_of wa store) listen_checkbox_property_key = None"
    using ev1 gf by (simp add: evolves_def)
  have ga: "fst (get_listen_enabled store wa) = Some (\<not> b)"
    using gle_stored [OF gfa cb1] by simp
  obtain s2 where o2': "fst (open_property_store_for_device mic wa) = Inr s2"
    using apply_Inr_open [OF f2] by blast
  have "fst (find_device_guid_by_name mic wa) = fst (find_device_guid_by_name mic w)"
    using ev1 by (intro find_cong evolves_same_endpoints)
  then have "s2 = store" using open_Inr [OF o2'] open_Inr [OF o] by simp
  then have o2: "fst (open_property_store_for_device mic wa) = Inr store" using o2' by simp
  have sf2: "set_fault (store_of wa store) listen_checkbox_property_key = None"
    using f2 o2 by (rule apply_Inr_flag)
  have cb2: "props (store_of wb store) listen_checkbox_property_key =
               Some (encode_enabled b)"
    using apply_checkbox(1) [OF o2 sf2, of None p2 v2] w2 ga by (simp add: enabled_to_set_def)
  have ev2: "evolves wa wb" using apply_evolves [of wa mic None p2 v2] w2 by simp
  have gfb: "get_fault (store_of wb store) listen_checkbox_property_key = None"
    using ev2 gfa by (simp add: evolves_def)
  have gb: "fst (get_listen_enabled store wb) = Some b"
    using gle_stored [OF gfb cb2] by simp
  show ?thesis using ga gb by simp
qed

theorem toggle_twice_witness:
  "fst (get_listen_enabled ''{0.0.1}.mic'' listening_world) = Some True
   \<and> fst (get_listen_enabled ''{0.0.1}.mic''
           (snd (apply_listen_settings ''Mic'' None None True listening_world))) = Some False
   \<and> fst (get_listen_enabled ''{0.0.1}.mic''
           (snd (apply_listen_settings ''Mic'' None (Some ''Speakers'') False
                   (snd (apply_listen_settings ''Mic'' None None True listening_world)))))
       = Some True"
proof -
  have c: "fst (get_listen_enabled ''{0.0.1}.mic'' listening_world) = Some True"
    by (simp add: run_defs world_defs)
  have a1: "apply_listen_settings ''Mic'' None None True listening_world =
              (Inr (), snd (apply_listen_settings ''Mic'' None None True listening_world))"
    using toggle_once_runs by (simp add: prod_eq_iff)
  have a2: "apply_listen_settings ''Mic'' None (Some ''Speakers'') False
              (snd (apply_listen_settings ''Mic'' None None True listening_world)) =
              (Inr (), snd (apply_listen_settings ''Mic'' None (Some ''Speakers'') False
                 (snd (apply_listen_settings ''Mic'' None None True listening_world))))"
    using toggle_again_runs by (simp add: prod_eq_iff)
  show ?thesis
    using toggle_twice [OF a1 a2 open_demo(5) c] c by simp
qed

subsection \<open>A commit that fails\<close>

text \<open>
  Claim C7, as the program has it. Let the run reach the commit: the store opens, both
  writes succeed, the playback name is absent or resolves; and let the commit fail. Then
  \<open>apply_listen_settings\<close> returns normally, both properties hold the values computed,
  the commit is the last call made, and what is printed is the two lines of the state
  when \<open>verbose\<close> and nothing otherwise: the failure of the commit is swallowed
  (\<open>except Exception: pass\<close>, lines 219 and 220) and nothing reports it.
\<close>

theorem apply_commit_fails:
  assumes o: "fst (open_property_store_for_device mic w) = Inr store"
      and sf: "set_fault (store_of w store) listen_checkbox_property_key = None"
      and rt: "route_target p w = Inr r"
      and pf: "set_fault (store_of w store) listen_playback_property_key = None"
      and cf: "commit_fault (store_of w store) = Some h"
  shows "fst (apply_listen_settings mic en p v w) = Inr ()
         \<and> stdout (snd (apply_listen_settings mic en p v w)) =
             stdout w @
               (if v then
                  [[Lit ''[micmon] Listen to this device: '',
                    Lit (if enabled_to_set en (fst (get_listen_enabled store w))
                         then ''ON'' else ''OFF'')],
                   [Lit ''[micmon] Playback through this device: '',
                    Lit (case p of
                           Some n \<Rightarrow> (if n = [] then ''Default playback device'' else n)
                         | None \<Rightarrow> ''Default playback device'')]]
                else [])
         \<and> props (store_of (snd (apply_listen_settings mic en p v w)) store)
             listen_checkbox_property_key =
             Some ((new_PROPVARIANT VT_BOOL)
                     \<lparr>boolVal := enabled_to_set en (fst (get_listen_enabled store w))\<rparr>)
         \<and> props (store_of (snd (apply_listen_settings mic en p v w)) store)
             listen_playback_property_key = Some (encode_route r)
         \<and> last (calls (snd (apply_listen_settings mic en p v w))) = Call_Commit store"
proof -
  let ?t = "enabled_to_set en (fst (get_listen_enabled store w))"
  let ?w3 = "snd (set_listen_enabled store ?t
                  (called (Call_GetValue store listen_checkbox_property_key)
                     (snd (open_property_store_for_device mic w))))"
  let ?w4 = "snd (set_listen_playback_device store p ?w3)"
  note fw = apply_flag_written [OF o sf, of en]
  have rt3: "route_target p ?w3 = Inr r"
    using route_target_cong [OF evolves_same_endpoints [OF fw(4)], of p] rt by simp
  have pf3: "set_fault (store_of ?w3 store) listen_playback_property_key = None"
    using fw(4) pf by (simp add: evolves_def)
  have f: "fst (set_listen_playback_device store p ?w3) = Inr ()"
    using slpd_resolved(1) [OF rt3, of store] pf3 by simp
  have a: "apply_listen_settings mic en p v w =
             (Inr (), if v then report ?t p (snd (Commit store ?w4))
                      else snd (Commit store ?w4))"
    using f by (simp add: fw(1) [of p v] case_prod_beta)
  have pb: "props (store_of ?w4 store) listen_playback_property_key = Some (encode_route r)"
    using slpd_resolved(2) [OF rt3, of store store] pf3 by simp
  have cb: "props (store_of ?w4 store) listen_checkbox_property_key = Some (encode_enabled ?t)"
    using fw(2) by (simp add: slpd_props_checkbox)
  have so: "stdout ?w4 = stdout w" using fw(5) by (simp add: slpd_stdout)
  show ?thesis
    using pb cb so
    by (simp add: a Commit_fields report_fields encode_enabled_def)
qed

theorem apply_commit_fails_witness:
  "fst (open_property_store_for_device ''Mic'' commit_fault_world) = Inr ''{0.0.1}.mic''
   \<and> commit_fault (store_of commit_fault_world ''{0.0.1}.mic'') = Some E_FAIL
   \<and> fst (apply_listen_settings ''Mic'' (Some True) None True commit_fault_world) = Inr ()
   \<and> stdout (snd (apply_listen_settings ''Mic'' (Some True) None True commit_fault_world)) =
       [[Lit ''[micmon] Listen to this device: '', Lit ''ON''],
        [Lit ''[micmon] Playback through this device: '', Lit ''Default playback device'']]
   \<and> last (calls (snd (apply_listen_settings ''Mic'' (Some True) None True
                         commit_fault_world))) = Call_Commit ''{0.0.1}.mic''"
proof -
  have sf: "set_fault (store_of commit_fault_world ''{0.0.1}.mic'')
              listen_checkbox_property_key = None"
    by (simp add: run_defs world_defs)
  have pf: "set_fault (store_of commit_fault_world ''{0.0.1}.mic'')
              listen_playback_property_key = None"
    by (simp add: run_defs world_defs)
  have cf: "commit_fault (store_of commit_fault_world ''{0.0.1}.mic'') = Some E_FAIL"
    by (simp add: run_defs world_defs)
  have rt: "route_target None commit_fault_world = Inr None"
    by (simp add: route_target_def)
  have so: "stdout commit_fault_world = []"
    by (simp add: run_defs world_defs)
  show ?thesis
    using apply_commit_fails [OF open_demo(3) sf rt pf cf, of "Some True" True] cf so
          open_demo(3)
    by (simp add: enabled_to_set_def)
qed

text \<open>
  The claim as the specification words it has the failure reported as a warning. On
  the example machine with a failing commit the verbose run prints the two lines of the
  state, exactly what it prints where the commit succeeds.
\<close>

theorem commit_failure_silent:
  "commit_fault (store_of commit_fault_world ''{0.0.1}.mic'') = Some E_FAIL
   \<and> fst (Commit ''{0.0.1}.mic'' commit_fault_world) = Inl (COMError E_FAIL)
   \<and> stdout (snd (main_apply True False ''Mic'' None True commit_fault_world)) =
       [[Lit ''[micmon] Listen to this device: '', Lit ''ON''],
        [Lit ''[micmon] Playback through this device: '', Lit ''Default playback device'']]
   \<and> stdout (snd (main_apply True False ''Mic'' None True demo_world)) =
       stdout (snd (main_apply True False ''Mic'' None True commit_fault_world))
   \<and> fst (main_apply True False ''Mic'' None True commit_fault_world) = 0"
  by (simp add: run_defs world_defs)

subsection \<open>Decoding the check box\<close>

text \<open>
  Claim C9, as the program has it. \<open>get_listen_enabled\<close> returns null exactly when the
  read raises, and the truth value of the value read otherwise; it raises nothing and
  changes no store. A faulted read gives null, a stored value its truth value. For a
  property that is not set the result follows the store: null where the store raises for
  the missing key, and the truth value of the value the store returns where it returns
  one.
\<close>

theorem get_listen_enabled_decode:
  "(fst (get_listen_enabled s w) = None \<longleftrightarrow>
      (\<exists>e. fst (GetValue s listen_checkbox_property_key w) = Inl e))
   \<and> (\<forall>x. fst (GetValue s listen_checkbox_property_key w) = Inr x \<longrightarrow>
          fst (get_listen_enabled s w) = Some (boolVal x))
   \<and> (\<forall>h. get_fault (store_of w s) listen_checkbox_property_key = Some h \<longrightarrow>
          fst (get_listen_enabled s w) = None)
   \<and> (\<forall>x. get_fault (store_of w s) listen_checkbox_property_key = None \<and>
          props (store_of w s) listen_checkbox_property_key = Some x \<longrightarrow>
          fst (get_listen_enabled s w) = Some (boolVal x))
   \<and> (get_fault (store_of w s) listen_checkbox_property_key = None \<and>
       props (store_of w s) listen_checkbox_property_key = None \<longrightarrow>
          fst (get_listen_enabled s w) =
            (case absent_read (store_of w s) of
               Inl h \<Rightarrow> None | Inr x \<Rightarrow> Some (boolVal x)))
   \<and> store_of (snd (get_listen_enabled s w)) = store_of w
   \<and> stdout (snd (get_listen_enabled s w)) = stdout w"
  by (auto simp add: get_listen_enabled_def GetValue_def Let_def
           split: option.splits sum.splits)

theorem get_listen_enabled_decode_witness:
  "fst (get_listen_enabled ''{0.0.1}.mic'' read_fault_world) = None
   \<and> fst (get_listen_enabled ''{0.0.1}.mic'' raising_world) = None
   \<and> fst (get_listen_enabled ''{0.0.1}.mic'' listening_world) = Some True
   \<and> fst (get_listen_enabled ''{0.0.1}.mic'' demo_world) = Some False"
proof -
  have a: "get_fault (store_of read_fault_world ''{0.0.1}.mic'')
             listen_checkbox_property_key = Some E_FAIL"
    by (simp add: run_defs world_defs)
  have b: "get_fault (store_of raising_world ''{0.0.1}.mic'')
             listen_checkbox_property_key = None"
          "props (store_of raising_world ''{0.0.1}.mic'')
             listen_checkbox_property_key = None"
          "absent_read (store_of raising_world ''{0.0.1}.mic'') = Inl E_FAIL"
    by (simp_all add: run_defs world_defs)
  have c: "get_fault (store_of listening_world ''{0.0.1}.mic'')
             listen_checkbox_property_key = None"
          "props (store_of listening_world ''{0.0.1}.mic'')
             listen_checkbox_property_key =
             Some \<lparr>vt = VT_BOOL, boolVal = True, pwszVal = None\<rparr>"
    by (simp_all add: run_defs world_defs)
  have d: "get_fault (store_of demo_world ''{0.0.1}.mic'')
             listen_checkbox_property_key = None"
          "props (store_of demo_world ''{0.0.1}.mic'')
             listen_checkbox_property_key = None"
          "absent_read (store_of demo_world ''{0.0.1}.mic'') =
             Inr \<lparr>vt = VT_EMPTY, boolVal = False, pwszVal = None\<rparr>"
    by (simp_all add: run_defs world_defs)
  show ?thesis
    using get_listen_enabled_decode [of "''{0.0.1}.mic''" read_fault_world]
          get_listen_enabled_decode [of "''{0.0.1}.mic''" raising_world]
          get_listen_enabled_decode [of "''{0.0.1}.mic''" listening_world]
          get_listen_enabled_decode [of "''{0.0.1}.mic''" demo_world]
          a b c d
    by simp
qed

text \<open>
  The claim as the specification words it has null for every absent property. A store
  that answers a read of a missing key with an empty value (the documented answer of
  \<open>IPropertyStore::GetValue\<close> is success with \<open>VT_EMPTY\<close>) raises nothing, and the
  program decodes the zeroed union as \<open>False\<close>.
\<close>

theorem get_listen_enabled_absent_false:
  "props (store_of demo_world ''{0.0.1}.mic'') listen_checkbox_property_key = None
   \<and> fst (GetValue ''{0.0.1}.mic'' listen_checkbox_property_key demo_world) =
       Inr \<lparr>vt = VT_EMPTY, boolVal = False, pwszVal = None\<rparr>
   \<and> fst (get_listen_enabled ''{0.0.1}.mic'' demo_world) = Some False"
  by (simp add: run_defs world_defs)

end
